theory Spec2Isabelle
  imports Complex_Main "HOL-Library.Multiset"
begin

section \<open>Secret Santa coordinator: the group lifecycle and the draw of \<open>src/App.tsx\<close>\<close>

text \<open>
  The handlers of the \<open>App\<close> component are embedded as pure functions. A handler takes
  the signed-in user (\<open>user : User | null\<close>), the environment of one run (what the awaited
  store calls answer, the server time, what \<open>Math.random\<close> and \<open>window.confirm\<close> return),
  the component's \<open>useState\<close> cells and the \<open>groups\<close> collection of the document store,
  and returns the branch it took together with the new cells and the new collection.
\<close>

subsection \<open>Strings\<close>

text \<open>
  A JavaScript string is modelled as a \<open>string\<close> whose characters are code units below
  256. \<open>String.prototype.trim\<close> removes white space and line terminators from both ends;
  below 256 these are TAB, LF, VT, FF, CR, SPACE and NBSP.
\<close>

definition is_ws :: "char \<Rightarrow> bool" where
  "is_ws c = (of_char c \<in> {9::nat, 10, 11, 12, 13, 32, 160})"

definition trim :: "string \<Rightarrow> string" where
  "trim s = rev (dropWhile is_ws (rev (dropWhile is_ws s)))"

text \<open>\<open>Array.prototype.join\<close> on an array of strings.\<close>

fun join :: "string \<Rightarrow> string list \<Rightarrow> string" where
  "join sep [] = []"
| "join sep [x] = x"
| "join sep (x # y # ys) = x @ sep @ join sep (y # ys)"

text \<open>
  The operand chain \<open>a || b || c || d\<close> over \<open>string | null\<close> operands with a string
  default: the first operand that is neither null nor the empty string.
\<close>

fun first_truthy :: "string option list \<Rightarrow> string \<Rightarrow> string" where
  "first_truthy [] d = d"
| "first_truthy (None # rest) d = first_truthy rest d"
| "first_truthy (Some s # rest) d = (if s = [] then first_truthy rest d else s)"

subsection \<open>Data model\<close>

type_synonym timestamp = nat

record user =
  uid :: string
  userDisplayName :: "string option"
  email :: "string option"
  phoneNumber :: "string option"
  userPhotoURL :: "string option"

record member_profile =
  displayName :: string
  photoURL :: "string option"

record assignment =
  recipientId :: string
  recipientName :: string
  recipientPhotoURL :: "string option"

record custom_field =
  fid :: string
  label :: string
  placeholder :: "string option"

type_synonym member_response = "string \<rightharpoonup> string"

text \<open>
  The data of a group document, with the fields \<open>handleCreateGroup\<close> writes. A
  \<open>Record<string, T>\<close> is a map from keys to values (keys are plain ids: none is a
  property of \<open>Object.prototype\<close>). \<open>customFields\<close> is \<open>None\<close> when the document has no
  such field, \<open>assignments\<close> and \<open>drawRunAt\<close> are \<open>None\<close> when null.
\<close>

record group_doc =
  name :: string
  description :: "string option"
  ownerId :: string
  ownerName :: string
  ownerPhotoURL :: "string option"
  memberIds :: "string list"
  members :: "string \<rightharpoonup> member_profile"
  assignments :: "(string \<rightharpoonup> assignment) option"
  customFields :: "custom_field list option"
  memberResponses :: "string \<rightharpoonup> member_response"
  createdAt :: "timestamp option"
  drawRunAt :: "timestamp option"

text \<open>The type \<open>Group\<close> of the client: the document's data and the document's id.\<close>

record group = group_doc +
  gid :: string

definition getDisplayName :: "user \<Rightarrow> string" where
  "getDisplayName u =
     first_truthy [userDisplayName u, email u, phoneNumber u] ''Anonymous gifter''"

subsection \<open>The document store\<close>

text \<open>
  The \<open>groups\<close> collection maps a document id to the document's data. An awaited store
  call either resolves or rejects (the network, the security rules); which one is an input
  of the run.
\<close>

type_synonym store = "string \<rightharpoonup> group_doc"

datatype io = Succeeds | Throws

text \<open>\<open>getDoc\<close>: the snapshot of a document, \<open>None\<close> when \<open>exists()\<close> is false.\<close>

definition getDoc :: "io \<Rightarrow> store \<Rightarrow> string \<Rightarrow> unit + group_doc option" where
  "getDoc r st k = (case r of Throws \<Rightarrow> Inl () | Succeeds \<Rightarrow> Inr (st k))"

text \<open>
  \<open>addDoc\<close>: stores the data under the id the store chose and resolves to that id. It
  validates the data first and throws on a field whose value is \<open>undefined\<close>, unless the
  Firestore instance was created with \<open>ignoreUndefinedProperties\<close>; then the field is left
  out of the document. The data \<open>handleCreateGroup\<close> hands over always has the key
  \<open>customFields\<close>, so \<open>None\<close> stands for the value \<open>undefined\<close> there; no other field of
  it can be \<open>undefined\<close>.
\<close>

definition addDoc :: "io \<Rightarrow> bool \<Rightarrow> string \<Rightarrow> store \<Rightarrow> group_doc \<Rightarrow> unit + (string \<times> store)" where
  "addDoc w ignoreUndefined k st d =
     (if customFields d = None \<and> \<not> ignoreUndefined then Inl ()
      else (case w of Throws \<Rightarrow> Inl () | Succeeds \<Rightarrow> Inr (k, st(k \<mapsto> d))))"

text \<open>
  \<open>updateDoc\<close>: one write that changes the named fields of an existing document and
  leaves its other fields; it rejects when the document does not exist.
\<close>

definition updateDoc :: "io \<Rightarrow> store \<Rightarrow> string \<Rightarrow> (group_doc \<Rightarrow> group_doc) \<Rightarrow> unit + store" where
  "updateDoc w st k upd =
     (case w of
        Throws \<Rightarrow> Inl ()
      | Succeeds \<Rightarrow> (case st k of None \<Rightarrow> Inl () | Some d \<Rightarrow> Inr (st(k \<mapsto> upd d))))"

text \<open>\<open>deleteDoc\<close>: removes the document; resolves also when there was none.\<close>

definition deleteDoc :: "io \<Rightarrow> store \<Rightarrow> string \<Rightarrow> unit + store" where
  "deleteDoc w st k = (case w of Throws \<Rightarrow> Inl () | Succeeds \<Rightarrow> Inr (st(k := None)))"

text \<open>\<open>arrayUnion(x)\<close> on an array field: appends \<open>x\<close> unless it is already an element.\<close>

definition arrayUnion :: "string list \<Rightarrow> string \<Rightarrow> string list" where
  "arrayUnion xs x = (if x \<in> set xs then xs else xs @ [x])"

subsection \<open>Environment and component state\<close>

text \<open>
  \<open>random k\<close> is what the \<open>k\<close>-th call of \<open>Math.random()\<close> in a run returns, a number in
  \<open>[0, 1)\<close>; \<open>serverTime\<close> is what the store puts for \<open>serverTimestamp()\<close>; \<open>newId\<close> is the
  id the store gives the document of \<open>addDoc\<close>; \<open>confirmed\<close> is the answer of
  \<open>window.confirm\<close>. \<open>ignoreUndefinedProperties\<close> is the setting of that name of the
  Firestore instance \<open>db\<close>. The instance is made in \<open>./firebase\<close>, which is not among the
  sources, so the setting is an input of the run; the SDK's default is \<open>false\<close>.
\<close>

record env =
  readIO :: io
  writeIO :: io
  serverTime :: timestamp
  newId :: string
  random :: "nat \<Rightarrow> real"
  confirmed :: bool
  ignoreUndefinedProperties :: bool

definition valid_random :: "(nat \<Rightarrow> real) \<Rightarrow> bool" where
  "valid_random rnd = (\<forall>k. 0 \<le> rnd k \<and> rnd k < 1)"

text \<open>A random source that repeats a finite tape of values, for concrete runs.\<close>

definition tape :: "real list \<Rightarrow> nat \<Rightarrow> real" where
  "tape rs k = rs ! (k mod length rs)"

text \<open>The \<open>useState\<close> cells the handlers read and write.\<close>

record ui =
  groups :: "group list"
  selectedGroupId :: "string option"
  newGroupName :: string
  newGroupDescription :: string
  formCustomFields :: "custom_field list"
  isCreatingGroup :: bool
  createError :: "string option"
  createSuccess :: "string option"
  joinCode :: string
  joinGroupFields :: "custom_field list"
  joinResponses :: "string \<rightharpoonup> string"
  isJoining :: bool
  joinError :: "string option"
  joinSuccess :: "string option"
  isRunningDraw :: bool
  drawError :: "string option"
  drawSuccess :: "string option"
  isDeletingGroup :: bool
  deleteError :: "string option"

text \<open>
  The branch a handler took. The failure branches carry the names of the error taxonomy;
  \<open>Forbidden\<close> is the silent early return of \<open>handleRunDraw\<close> and \<open>handleDeleteGroup\<close>,
  \<open>NotSignedIn\<close> the one of \<open>handleCreateGroup\<close> and \<open>handleJoinGroup\<close>, \<open>StoreUnavailable\<close>
  the \<open>catch\<close> block, \<open>Cancelled\<close> a declined confirmation.
\<close>

datatype outcome =
    NotSignedIn
  | ValidationError
  | NotFound
  | AlreadyMember
  | IncompleteResponses
  | Forbidden
  | InsufficientMembers
  | StoreUnavailable
  | Cancelled
  | Created string
  | Joined
  | DrawCompleted
  | Deleted

subsection \<open>The draw\<close>

text \<open>
  \<open>shuffle\<close>: the loop \<open>for (i = copy.length - 1; i > 0; i -= 1)\<close> with
  \<open>j = Math.floor(Math.random() * (i + 1))\<close> and the swap of \<open>copy[i]\<close> and \<open>copy[j]\<close>.
  \<open>k\<close> counts the calls of \<open>Math.random\<close>. On the empty array \<open>copy.length - 1\<close> is
  \<open>-1\<close> and the body never runs, as with the truncated \<open>0\<close> here. The product is taken
  in the reals; the rounded product of the machine stays below \<open>i + 1\<close> as well, so its
  floor is the \<open>j\<close> of some real in \<open>[0, 1)\<close>. With such a number \<open>j \<le> i\<close>, and every
  read and write of the swap is inside the array.
\<close>

fun shuffle_loop :: "(nat \<Rightarrow> real) \<Rightarrow> nat \<Rightarrow> 'a list \<Rightarrow> nat \<Rightarrow> 'a list" where
  "shuffle_loop rnd k copy 0 = copy"
| "shuffle_loop rnd k copy (Suc i') =
     (let i = Suc i';
          j = nat \<lfloor>rnd k * real (i + 1)\<rfloor>
      in shuffle_loop rnd (Suc k) (copy[i := copy ! j, j := copy ! i]) i')"

definition shuffle :: "(nat \<Rightarrow> real) \<Rightarrow> 'a list \<Rightarrow> 'a list" where
  "shuffle rnd items = shuffle_loop rnd 0 items (length items - 1)"

text \<open>
  The assignment record of one giver: \<open>receiverProfile?.displayName ?? 'Mystery Santa'\<close>
  and \<open>receiverProfile?.photoURL ?? null\<close>.
\<close>

definition mk_assignment :: "(string \<rightharpoonup> member_profile) \<Rightarrow> string \<Rightarrow> assignment" where
  "mk_assignment mem receiverId =
     (let receiverProfile = mem receiverId
      in \<lparr>recipientId = receiverId,
          recipientName = (case receiverProfile of None \<Rightarrow> ''Mystery Santa'' | Some p \<Rightarrow> displayName p),
          recipientPhotoURL = (case receiverProfile of None \<Rightarrow> None | Some p \<Rightarrow> photoURL p)\<rparr>)"

text \<open>The loop over \<open>index\<close> that fills \<open>assignments\<close>.\<close>

function draw_loop ::
  "(string \<rightharpoonup> member_profile) \<Rightarrow> string list \<Rightarrow> nat \<Rightarrow> (string \<rightharpoonup> assignment) \<Rightarrow> (string \<rightharpoonup> assignment)"
where
  "draw_loop mem shuffledMembers index acc =
     (if index < length shuffledMembers then
        (let giverId = shuffledMembers ! index;
             receiverId = shuffledMembers ! ((index + 1) mod length shuffledMembers)
         in draw_loop mem shuffledMembers (index + 1) (acc(giverId \<mapsto> mk_assignment mem receiverId)))
      else acc)"
  by pat_completeness auto
termination
  by (relation "measure (\<lambda>(mem, shuffledMembers, index, acc). length shuffledMembers - index)") auto

declare draw_loop.simps [simp del]

text \<open>The \<open>assignments\<close> object \<open>handleRunDraw\<close> builds inside its \<open>try\<close> block.\<close>

definition draw_assignments :: "(nat \<Rightarrow> real) \<Rightarrow> 'a group_scheme \<Rightarrow> (string \<rightharpoonup> assignment)" where
  "draw_assignments rnd g = draw_loop (members g) (shuffle rnd (memberIds g)) 0 Map.empty"

definition handleRunDraw :: "user option \<Rightarrow> group \<Rightarrow> env \<Rightarrow> ui \<Rightarrow> store \<Rightarrow> outcome \<times> ui \<times> store" where
  "handleRunDraw usr g e u st =
     (if (case usr of None \<Rightarrow> True | Some x \<Rightarrow> uid x \<noteq> ownerId g) then (Forbidden, u, st)
      else
        (let u1 = u\<lparr>drawError := None, drawSuccess := None\<rparr>
         in if length (memberIds g) < 2 then
              (InsufficientMembers,
               u1\<lparr>drawError := Some ''You need at least two members to run a draw.''\<rparr>, st)
            else
              (let u2 = u1\<lparr>isRunningDraw := True\<rparr>;
                   a = draw_assignments (random e) g
               in case updateDoc (writeIO e) st (gid g)
                         (\<lambda>d. d\<lparr>assignments := Some a, drawRunAt := Some (serverTime e)\<rparr>) of
                    Inr st' \<Rightarrow>
                      (DrawCompleted,
                       u2\<lparr>drawSuccess := Some ''Draw completed! Everyone now has someone to surprise.'',
                          isRunningDraw := False\<rparr>, st')
                  | Inl _ \<Rightarrow>
                      (StoreUnavailable,
                       u2\<lparr>drawError := Some ''Something went wrong running the draw. Please try again.'',
                          isRunningDraw := False\<rparr>, st))))"

subsection \<open>What a draw must satisfy\<close>

text \<open>
  The recipient an \<open>assignments\<close> map gives a member; a member with no record gives to
  nobody, written as the member itself. \<open>chain a m n\<close> lists the members reached from
  \<open>m\<close> by following giver to recipient \<open>0, 1, \<dots>, n - 1\<close> times.
\<close>

definition recipient :: "(string \<rightharpoonup> assignment) \<Rightarrow> string \<Rightarrow> string" where
  "recipient a m = (case a m of None \<Rightarrow> m | Some r \<Rightarrow> recipientId r)"

definition chain :: "(string \<rightharpoonup> assignment) \<Rightarrow> string \<Rightarrow> nat \<Rightarrow> string list" where
  "chain a m n = map (\<lambda>k. (recipient a ^^ k) m) [0..<n]"

definition bijection_on :: "string list \<Rightarrow> (string \<rightharpoonup> assignment) \<Rightarrow> bool" where
  "bijection_on ms a = (dom a = set ms \<and> bij_betw (recipient a) (set ms) (set ms))"

definition no_fixed_point :: "string list \<Rightarrow> (string \<rightharpoonup> assignment) \<Rightarrow> bool" where
  "no_fixed_point ms a = (\<forall>m \<in> set ms. recipient a m \<noteq> m)"

definition single_cycle :: "string list \<Rightarrow> (string \<rightharpoonup> assignment) \<Rightarrow> bool" where
  "single_cycle ms a =
     (\<forall>m \<in> set ms. distinct (chain a m (length ms)) \<and> set (chain a m (length ms)) = set ms
        \<and> (recipient a ^^ length ms) m = m)"

subsection \<open>Creating, joining and deleting a group\<close>

definition handleCreateGroup :: "user option \<Rightarrow> env \<Rightarrow> ui \<Rightarrow> store \<Rightarrow> outcome \<times> ui \<times> store" where
  "handleCreateGroup usr e u st =
     (case usr of
        None \<Rightarrow> (NotSignedIn, u, st)
      | Some x \<Rightarrow>
          (let u1 = u\<lparr>createError := None, createSuccess := None, isCreatingGroup := True\<rparr>;
               trimmedName = trim (newGroupName u)
           in if trimmedName = [] then
                (ValidationError,
                 u1\<lparr>createError := Some ''Give your group a name first.'',
                    isCreatingGroup := False\<rparr>, st)
              else
                (case addDoc (writeIO e) (ignoreUndefinedProperties e) (newId e) st
                   \<lparr>name = trimmedName,
                    description = Some (first_truthy [Some (trim (newGroupDescription u))] []),
                    ownerId = uid x,
                    ownerName = getDisplayName x,
                    ownerPhotoURL = userPhotoURL x,
                    memberIds = [uid x],
                    members = [uid x \<mapsto> \<lparr>displayName = getDisplayName x, photoURL = userPhotoURL x\<rparr>],
                    assignments = None,
                    customFields =
                      (if length (formCustomFields u) > 0 then Some (formCustomFields u) else None),
                    memberResponses = Map.empty,
                    createdAt = Some (serverTime e),
                    drawRunAt = None\<rparr> of
                   Inr (k, st') \<Rightarrow>
                     (Created k,
                      u1\<lparr>newGroupName := [], newGroupDescription := [], formCustomFields := [],
                         createSuccess := Some ''Group created! Share the join code with your Santas.'',
                         selectedGroupId := Some k, isCreatingGroup := False\<rparr>, st')
                 | Inl _ \<Rightarrow>
                     (StoreUnavailable,
                      u1\<lparr>createError := Some ''Unable to create that group. Please try again.'',
                         isCreatingGroup := False\<rparr>, st))))"

text \<open>
  The filter of \<open>handleJoinGroup\<close>:
  \<open>!joinResponses[field.id] || !joinResponses[field.id].trim()\<close>.
\<close>

definition field_missing :: "(string \<rightharpoonup> string) \<Rightarrow> custom_field \<Rightarrow> bool" where
  "field_missing responses field =
     (case responses (fid field) of None \<Rightarrow> True | Some v \<Rightarrow> v = [] \<or> trim v = [])"

text \<open>
  The specification's wording of a required field without an answer: \<open>responses\<close> has no
  entry for the field, or an entry that is white space only.
\<close>

definition lacks_answer :: "(string \<rightharpoonup> string) \<Rightarrow> custom_field \<Rightarrow> bool" where
  "lacks_answer responses field =
     (case responses (fid field) of None \<Rightarrow> True | Some v \<Rightarrow> list_all is_ws v)"

definition handleJoinGroup :: "user option \<Rightarrow> env \<Rightarrow> ui \<Rightarrow> store \<Rightarrow> outcome \<times> ui \<times> store" where
  "handleJoinGroup usr e u st =
     (case usr of
        None \<Rightarrow> (NotSignedIn, u, st)
      | Some x \<Rightarrow>
          (let trimmedCode = trim (joinCode u)
           in if trimmedCode = [] then
                (ValidationError, u\<lparr>joinError := Some ''Enter a join code.'', joinSuccess := None\<rparr>, st)
              else
                (let u1 = u\<lparr>joinError := None, joinSuccess := None, isJoining := True\<rparr>
                 in case getDoc (readIO e) st trimmedCode of
                      Inl _ \<Rightarrow>
                        (StoreUnavailable,
                         u1\<lparr>joinError := Some ''Could not join that group. Please double-check the code.'',
                            isJoining := False\<rparr>, st)
                    | Inr None \<Rightarrow>
                        (NotFound,
                         u1\<lparr>joinError := Some ''No group found with that code.'', isJoining := False\<rparr>, st)
                    | Inr (Some data) \<Rightarrow>
                        if uid x \<in> set (memberIds data) then
                          (AlreadyMember,
                           u1\<lparr>joinError := Some ''You are already part of that group.'',
                              isJoining := False\<rparr>, st)
                        else
                          (let fields = (case customFields data of None \<Rightarrow> [] | Some fs \<Rightarrow> fs);
                               missingFields = filter (field_missing (joinResponses u)) fields
                           in if length fields > 0 \<and> length missingFields > 0 then
                                (IncompleteResponses,
                                 u1\<lparr>joinError :=
                                      Some (''Please fill out all required fields: ''
                                            @ join '', '' (map label missingFields)),
                                    isJoining := False\<rparr>, st)
                              else
                                (case updateDoc (writeIO e) st trimmedCode
                                   (\<lambda>d. d\<lparr>memberIds := arrayUnion (memberIds d) (uid x),
                                           members := (members d)(uid x \<mapsto>
                                             \<lparr>displayName = getDisplayName x, photoURL = userPhotoURL x\<rparr>),
                                           memberResponses := (memberResponses d)(uid x \<mapsto> joinResponses u)\<rparr>) of
                                   Inr st' \<Rightarrow>
                                     (Joined,
                                      u1\<lparr>joinSuccess := Some ''Welcome aboard! You have joined the group.'',
                                         joinCode := [], joinGroupFields := [],
                                         joinResponses := Map.empty,
                                         selectedGroupId := Some trimmedCode, isJoining := False\<rparr>, st')
                                 | Inl _ \<Rightarrow>
                                     (StoreUnavailable,
                                      u1\<lparr>joinError := Some ''Could not join that group. Please double-check the code.'',
                                         isJoining := False\<rparr>, st))))))"

definition handleDeleteGroup :: "user option \<Rightarrow> group \<Rightarrow> env \<Rightarrow> ui \<Rightarrow> store \<Rightarrow> outcome \<times> ui \<times> store" where
  "handleDeleteGroup usr g e u st =
     (if (case usr of None \<Rightarrow> True | Some x \<Rightarrow> uid x \<noteq> ownerId g) then (Forbidden, u, st)
      else if \<not> confirmed e then (Cancelled, u, st)
      else
        (let u1 = u\<lparr>deleteError := None, isDeletingGroup := True\<rparr>
         in case deleteDoc (writeIO e) st (gid g) of
              Inr st' \<Rightarrow> (Deleted, u1\<lparr>selectedGroupId := None\<rparr>, st')
            | Inl _ \<Rightarrow>
                (StoreUnavailable,
                 u1\<lparr>deleteError := Some ''Unable to delete the group. Please try again.'',
                    isDeletingGroup := False\<rparr>, st)))"

text \<open>
  The user actions that reach the store, and the handler each one runs; \<open>RunDraw\<close> and
  \<open>DeleteGroup\<close> carry the \<open>Group\<close> the button was rendered for.
\<close>

datatype request = CreateGroup | JoinGroup | RunDraw group | DeleteGroup group

definition perform :: "user option \<Rightarrow> env \<Rightarrow> request \<Rightarrow> ui \<Rightarrow> store \<Rightarrow> outcome \<times> ui \<times> store" where
  "perform usr e req u st =
     (case req of
        CreateGroup \<Rightarrow> handleCreateGroup usr e u st
      | JoinGroup \<Rightarrow> handleJoinGroup usr e u st
      | RunDraw g \<Rightarrow> handleRunDraw usr g e u st
      | DeleteGroup g \<Rightarrow> handleDeleteGroup usr g e u st)"

text \<open>Every stored group lists a user id at most once.\<close>

definition members_once :: "store \<Rightarrow> bool" where
  "members_once st = (\<forall>k d. st k = Some d \<longrightarrow> distinct (memberIds d))"

subsection \<open>The join form's schema and the selected group\<close>

text \<open>
  \<open>loadGroupFields\<close>, the effect on \<open>joinCode\<close>. The first component lists the document
  ids it asked the store for.
\<close>

definition loadGroupFields :: "env \<Rightarrow> ui \<Rightarrow> store \<Rightarrow> string list \<times> ui" where
  "loadGroupFields e u st =
     (let trimmedCode = trim (joinCode u)
      in if trimmedCode = [] \<or> length trimmedCode < 20 then
           ([], u\<lparr>joinGroupFields := [], joinResponses := Map.empty\<rparr>)
         else
           ([trimmedCode],
            (case getDoc (readIO e) st trimmedCode of
               Inr (Some data) \<Rightarrow>
                 (let fields = (case customFields data of None \<Rightarrow> [] | Some fs \<Rightarrow> fs)
                  in u\<lparr>joinGroupFields := fields,
                       joinResponses := fold (\<lambda>field r. r(fid field \<mapsto> [])) fields Map.empty\<rparr>)
             | Inr None \<Rightarrow> u\<lparr>joinGroupFields := [], joinResponses := Map.empty\<rparr>
             | Inl _ \<Rightarrow> u\<lparr>joinGroupFields := [], joinResponses := Map.empty\<rparr>)))"

text \<open>
  The effect on \<open>[groups, selectedGroupId]\<close>: it keeps a truthy \<open>selectedGroupId\<close> that
  some group of \<open>groups\<close> has, and otherwise sets \<open>groups[0]?.id ?? null\<close>.
\<close>

definition selection_effect :: "ui \<Rightarrow> ui" where
  "selection_effect u =
     (if (case selectedGroupId u of
            None \<Rightarrow> False
          | Some s \<Rightarrow> s \<noteq> [] \<and> list_ex (\<lambda>g. gid g = s) (groups u))
      then u
      else u\<lparr>selectedGroupId := (case groups u of [] \<Rightarrow> None | g # _ \<Rightarrow> Some (gid g))\<rparr>)"

text \<open>\<open>selectedGroup\<close>: \<open>groups.find((group) => group.id === selectedGroupId) ?? null\<close>.\<close>

definition selectedGroup :: "ui \<Rightarrow> group option" where
  "selectedGroup u =
     (case selectedGroupId u of None \<Rightarrow> None | Some s \<Rightarrow> find (\<lambda>g. gid g = s) (groups u))"

subsection \<open>Concrete runs\<close>

text \<open>The initial values of the \<open>useState\<close> cells.\<close>

definition initial_ui :: ui where
  "initial_ui =
     \<lparr>groups = [], selectedGroupId = None, newGroupName = [], newGroupDescription = [],
      formCustomFields = [], isCreatingGroup = False, createError = None, createSuccess = None,
      joinCode = [], joinGroupFields = [], joinResponses = Map.empty, isJoining = False,
      joinError = None, joinSuccess = None, isRunningDraw = False, drawError = None,
      drawSuccess = None, isDeletingGroup = False, deleteError = None\<rparr>"

text \<open>
  The \<open>Group\<close> the snapshot listener builds from a document (its \<open>??\<close> defaults apply to
  \<open>customFields\<close> only, on documents of the shape above).
\<close>

definition toGroup :: "string \<Rightarrow> group_doc \<Rightarrow> group" where
  "toGroup k d =
     \<lparr>name = name d, description = description d, ownerId = ownerId d, ownerName = ownerName d,
      ownerPhotoURL = ownerPhotoURL d, memberIds = memberIds d, members = members d,
      assignments = assignments d,
      customFields = Some (case customFields d of None \<Rightarrow> [] | Some fs \<Rightarrow> fs),
      memberResponses = memberResponses d, createdAt = createdAt d, drawRunAt = drawRunAt d,
      gid = k\<rparr>"

text \<open>
  Sample data: a user with a display name, a group document, an environment with the
  SDK's default setting.
\<close>

definition sample_user :: "string \<Rightarrow> string \<Rightarrow> user" where
  "sample_user i n =
     \<lparr>uid = i, userDisplayName = Some n, email = None, phoneNumber = None, userPhotoURL = None\<rparr>"

definition sample_doc :: "string \<Rightarrow> string list \<Rightarrow> string list \<Rightarrow> custom_field list option \<Rightarrow> group_doc" where
  "sample_doc owner ms profiled fs =
     \<lparr>name = ''Office Party'', description = Some [], ownerId = owner, ownerName = owner,
      ownerPhotoURL = None, memberIds = ms,
      members = map_of (map (\<lambda>m. (m, \<lparr>displayName = m, photoURL = Some (m @ ''.png'')\<rparr>)) profiled),
      assignments = None, customFields = fs, memberResponses = Map.empty,
      createdAt = Some 1, drawRunAt = None\<rparr>"

definition sample_env :: "io \<Rightarrow> io \<Rightarrow> real list \<Rightarrow> env" where
  "sample_env r w rs =
     \<lparr>readIO = r, writeIO = w, serverTime = 2, newId = ''Zx3kQ9vLm2TpR7aYc1Bd'',
      random = tape rs, confirmed = True, ignoreUndefinedProperties = False\<rparr>"

section \<open>Properties\<close>

subsection \<open>The shuffle permutes, the draw loop links each position to the next\<close>

lemma random_index_le:
  assumes "0 \<le> r" "r < 1"
  shows "nat \<lfloor>r * real (Suc i)\<rfloor> \<le> i"
proof -
  have "r * real (Suc i) < real (Suc i)" using assms by simp
  then have "\<lfloor>r * real (Suc i)\<rfloor> < int (Suc i)" by (simp add: floor_less_iff)
  then show ?thesis by simp
qed

lemma mset_shuffle_loop:
  "valid_random rnd \<Longrightarrow> i < length copy \<Longrightarrow> mset (shuffle_loop rnd k copy i) = mset copy"
proof (induction i arbitrary: k copy)
  case 0
  then show ?case by simp
next
  case (Suc i)
  have r: "0 \<le> rnd k" "rnd k < 1" using Suc.prems(1) by (auto simp: valid_random_def)
  let ?j = "nat \<lfloor>rnd k * real (Suc i + 1)\<rfloor>"
  have j: "?j \<le> Suc i" using random_index_le [OF r, of "Suc i"] by simp
  let ?c = "copy[Suc i := copy ! ?j, ?j := copy ! Suc i]"
  have m: "mset ?c = mset copy" using j Suc.prems(2) by (simp add: mset_swap)
  have "mset (shuffle_loop rnd (Suc k) ?c i) = mset ?c"
    using Suc.IH [of ?c "Suc k"] Suc.prems by simp
  then show ?case using m by (simp add: Let_def)
qed

lemma mset_shuffle: "valid_random rnd \<Longrightarrow> mset (shuffle rnd items) = mset items"
  by (cases items) (simp_all add: shuffle_def mset_shuffle_loop)

lemma draw_loop_unfold:
  "index < length sh \<Longrightarrow>
   draw_loop mem sh index acc =
     draw_loop mem sh (index + 1)
       (acc(sh ! index \<mapsto> mk_assignment mem (sh ! ((index + 1) mod length sh))))"
  by (subst draw_loop.simps) (simp add: Let_def)

lemma draw_loop_done: "\<not> index < length sh \<Longrightarrow> draw_loop mem sh index acc = acc"
  by (subst draw_loop.simps) simp

lemma draw_loop_outside:
  "x \<notin> set sh \<Longrightarrow> draw_loop mem sh index acc x = acc x"
proof (induction mem sh index acc rule: draw_loop.induct)
  case (1 mem sh index acc)
  show ?case
  proof (cases "index < length sh")
    case True
    let ?acc = "acc(sh ! index \<mapsto> mk_assignment mem (sh ! ((index + 1) mod length sh)))"
    have ne: "sh ! index \<noteq> x" using "1.prems" True by auto
    have "draw_loop mem sh index acc x = draw_loop mem sh (index + 1) ?acc x"
      by (simp only: draw_loop_unfold [OF True])
    also have "\<dots> = ?acc x" by (rule "1.IH" [OF True refl refl "1.prems"])
    also have "\<dots> = acc x" using ne by simp
    finally show ?thesis .
  next
    case False
    then show ?thesis by (simp add: draw_loop_done)
  qed
qed

lemma draw_loop_nth:
  "distinct sh \<Longrightarrow> i < length sh \<Longrightarrow>
   draw_loop mem sh index acc (sh ! i) =
     (if index \<le> i then Some (mk_assignment mem (sh ! ((i + 1) mod length sh))) else acc (sh ! i))"
proof (induction mem sh index acc rule: draw_loop.induct)
  case (1 mem sh index acc)
  show ?case
  proof (cases "index < length sh")
    case True
    let ?acc = "acc(sh ! index \<mapsto> mk_assignment mem (sh ! ((index + 1) mod length sh)))"
    have "draw_loop mem sh index acc (sh ! i) = draw_loop mem sh (index + 1) ?acc (sh ! i)"
      by (simp only: draw_loop_unfold [OF True])
    also have "\<dots> = (if index + 1 \<le> i then Some (mk_assignment mem (sh ! ((i + 1) mod length sh)))
                      else ?acc (sh ! i))"
      by (rule "1.IH" [OF True refl refl "1.prems"])
    also have "\<dots> = (if index \<le> i then Some (mk_assignment mem (sh ! ((i + 1) mod length sh)))
                      else acc (sh ! i))"
    proof (cases "index = i")
      case True
      then show ?thesis by simp
    next
      case False
      then have "sh ! index \<noteq> sh ! i"
        using "1.prems" \<open>index < length sh\<close> by (simp add: nth_eq_iff_index_eq)
      then show ?thesis using False by auto
    qed
    finally show ?thesis .
  next
    case False
    then show ?thesis using "1.prems" by (simp add: draw_loop_done)
  qed
qed


subsection \<open>A list read cyclically\<close>

lemma succ_mod_neq: "2 \<le> n \<Longrightarrow> i < n \<Longrightarrow> (i + 1) mod n \<noteq> (i::nat)"
proof (cases "i + 1 < n")
  case True
  then show ?thesis by simp
next
  case False
  assume "2 \<le> n" "i < n"
  with False have "i + 1 = n" by simp
  then have "(i + 1) mod n = 0" by simp
  moreover have "i \<noteq> 0" using \<open>i + 1 = n\<close> \<open>2 \<le> n\<close> by simp
  ultimately show ?thesis by simp
qed

lemma cyc_pow:
  assumes f: "\<And>i. i < length sh \<Longrightarrow> f (sh ! i) = sh ! ((i + 1) mod length sh)"
    and i: "i < length sh"
  shows "(f ^^ k) (sh ! i) = sh ! ((i + k) mod length sh)"
proof (induction k)
  case 0
  then show ?case using i by simp
next
  case (Suc k)
  have "0 < length sh" using i by (cases sh) simp_all
  then have lt: "(i + k) mod length sh < length sh" by simp
  have "(f ^^ Suc k) (sh ! i) = f (sh ! ((i + k) mod length sh))" using Suc by simp
  also have "\<dots> = sh ! (((i + k) mod length sh + 1) mod length sh)" by (rule f [OF lt])
  also have "((i + k) mod length sh + 1) mod length sh = (i + Suc k) mod length sh"
    by (simp add: mod_Suc_eq)
  finally show ?case .
qed

lemma cyc_chain:
  assumes f: "\<And>i. i < length sh \<Longrightarrow> f (sh ! i) = sh ! ((i + 1) mod length sh)"
    and i: "i < length sh"
  shows "map (\<lambda>k. (f ^^ k) (sh ! i)) [0..<length sh] = rotate i sh"
proof (rule nth_equalityI)
  show "length (map (\<lambda>k. (f ^^ k) (sh ! i)) [0..<length sh]) = length (rotate i sh)" by simp
next
  fix k assume "k < length (map (\<lambda>k. (f ^^ k) (sh ! i)) [0..<length sh])"
  then have k: "k < length sh" by simp
  then show "map (\<lambda>k. (f ^^ k) (sh ! i)) [0..<length sh] ! k = rotate i sh ! k"
    using cyc_pow [of sh f i k, OF f i] by (simp add: nth_rotate)
qed

lemma cyc_map:
  assumes f: "\<And>i. i < length sh \<Longrightarrow> f (sh ! i) = sh ! ((i + 1) mod length sh)"
  shows "map f sh = rotate1 sh"
proof (rule nth_equalityI)
  show "length (map f sh) = length (rotate1 sh)" by simp
next
  fix k assume "k < length (map f sh)"
  then have k: "k < length sh" by simp
  then show "map f sh ! k = rotate1 sh ! k"
    using f [OF k] by (simp add: nth_rotate1)
qed

lemma cyc_bij:
  assumes f: "\<And>i. i < length sh \<Longrightarrow> f (sh ! i) = sh ! ((i + 1) mod length sh)"
    and d: "distinct sh"
  shows "bij_betw f (set sh) (set sh)"
proof -
  have m: "map f sh = rotate1 sh" by (rule cyc_map [OF f])
  have "distinct (map f sh)" using d by (simp only: m distinct1_rotate)
  then have inj: "inj_on f (set sh)" by (simp add: distinct_map)
  have "f ` set sh = set (map f sh)" by simp
  also have "\<dots> = set sh" by (simp only: m set_rotate1)
  finally show ?thesis using inj by (simp add: bij_betw_def)
qed


subsection \<open>The assignments of a draw\<close>

lemma mk_assignment_recipientId: "recipientId (mk_assignment mem r) = r"
  by (simp add: mk_assignment_def Let_def)

lemma mod_lt_length: "i < length sh \<Longrightarrow> k mod length sh < length sh"
  by (cases sh) simp_all

lemma draw_loop_all:
  assumes d: "distinct sh" and i: "i < length sh"
  shows "draw_loop mem sh 0 Map.empty (sh ! i) = Some (mk_assignment mem (sh ! ((i + 1) mod length sh)))"
  using draw_loop_nth [OF d i, of mem 0 Map.empty] by simp

lemma draw_loop_dom:
  assumes d: "distinct sh"
  shows "dom (draw_loop mem sh 0 Map.empty) = set sh"
proof (rule set_eqI)
  fix x
  show "x \<in> dom (draw_loop mem sh 0 Map.empty) \<longleftrightarrow> x \<in> set sh"
  proof (cases "x \<in> set sh")
    case True
    then obtain i where "i < length sh" "sh ! i = x" by (auto simp: in_set_conv_nth)
    then show ?thesis using draw_loop_all [OF d, of i mem] True by auto
  next
    case False
    then show ?thesis by (simp add: draw_loop_outside domIff)
  qed
qed

lemma recipient_draw_loop:
  assumes d: "distinct sh" and i: "i < length sh"
  shows "recipient (draw_loop mem sh 0 Map.empty) (sh ! i) = sh ! ((i + 1) mod length sh)"
  by (simp add: recipient_def draw_loop_all [OF d i] mk_assignment_def Let_def)

lemma draw_loop_valid:
  assumes d: "distinct sh" and n: "2 \<le> length sh" and s: "set ms = set sh" and l: "length ms = length sh"
  shows "bijection_on ms (draw_loop mem sh 0 Map.empty)"
    and "no_fixed_point ms (draw_loop mem sh 0 Map.empty)"
    and "single_cycle ms (draw_loop mem sh 0 Map.empty)"
proof -
  let ?a = "draw_loop mem sh 0 Map.empty"
  let ?f = "recipient ?a"
  have f: "\<And>i. i < length sh \<Longrightarrow> ?f (sh ! i) = sh ! ((i + 1) mod length sh)"
    by (rule recipient_draw_loop [OF d])
  show "bijection_on ms ?a"
    unfolding bijection_on_def s using draw_loop_dom [OF d] cyc_bij [of sh ?f, OF f d] by simp
  show "no_fixed_point ms ?a"
    unfolding no_fixed_point_def s
  proof
    fix m assume "m \<in> set sh"
    then obtain i where i: "i < length sh" "sh ! i = m" by (auto simp: in_set_conv_nth)
    have "(i + 1) mod length sh < length sh" using i(1) by (rule mod_lt_length)
    then have "sh ! ((i + 1) mod length sh) \<noteq> sh ! i"
      using d i(1) succ_mod_neq [OF n i(1)] by (simp add: nth_eq_iff_index_eq)
    then show "?f m \<noteq> m" using f [OF i(1)] i(2) by simp
  qed
  show "single_cycle ms ?a"
    unfolding single_cycle_def s l
  proof
    fix m assume "m \<in> set sh"
    then obtain i where i: "i < length sh" "sh ! i = m" by (auto simp: in_set_conv_nth)
    have c: "chain ?a m (length sh) = rotate i sh"
      unfolding chain_def i(2) [symmetric] by (rule cyc_chain [of sh ?f, OF f i(1)])
    have "(?f ^^ length sh) (sh ! i) = sh ! ((i + length sh) mod length sh)"
      by (rule cyc_pow [of sh ?f, OF f i(1)])
    then have "(?f ^^ length sh) m = m" using i by simp
    then show "distinct (chain ?a m (length sh)) \<and> set (chain ?a m (length sh)) = set sh
        \<and> (?f ^^ length sh) m = m"
      using d by (simp add: c)
  qed
qed

lemma shuffle_perm:
  assumes "valid_random rnd"
  shows "set (shuffle rnd items) = set items" and "length (shuffle rnd items) = length items"
    and "distinct (shuffle rnd items) = distinct items"
proof -
  have m: "mset (shuffle rnd items) = mset items" by (rule mset_shuffle [OF assms])
  show "set (shuffle rnd items) = set items" by (rule mset_eq_setD [OF m])
  show "length (shuffle rnd items) = length items" by (rule mset_eq_length [OF m])
  show "distinct (shuffle rnd items) = distinct items" by (rule mset_eq_imp_distinct_iff [OF m])
qed

lemma draw_assignments_valid:
  assumes "valid_random rnd" and "distinct (memberIds g)" and "2 \<le> length (memberIds g)"
  shows "bijection_on (memberIds g) (draw_assignments rnd g)"
    and "no_fixed_point (memberIds g) (draw_assignments rnd g)"
    and "single_cycle (memberIds g) (draw_assignments rnd g)"
proof -
  let ?sh = "shuffle rnd (memberIds g)"
  have d: "distinct ?sh" using assms(2) by (simp only: shuffle_perm(3) [OF assms(1)])
  have n: "2 \<le> length ?sh" using assms(3) by (simp only: shuffle_perm(2) [OF assms(1)])
  have s: "set (memberIds g) = set ?sh" by (simp only: shuffle_perm(1) [OF assms(1)])
  have l: "length (memberIds g) = length ?sh" by (simp only: shuffle_perm(2) [OF assms(1)])
  show "bijection_on (memberIds g) (draw_assignments rnd g)"
    unfolding draw_assignments_def by (rule draw_loop_valid(1) [OF d n s l])
  show "no_fixed_point (memberIds g) (draw_assignments rnd g)"
    unfolding draw_assignments_def by (rule draw_loop_valid(2) [OF d n s l])
  show "single_cycle (memberIds g) (draw_assignments rnd g)"
    unfolding draw_assignments_def by (rule draw_loop_valid(3) [OF d n s l])
qed

lemma handleRunDraw_commit:
  assumes "usr = Some x" "uid x = ownerId g" "2 \<le> length (memberIds g)"
    "writeIO e = Succeeds" "st (gid g) = Some d"
  shows "handleRunDraw usr g e u st =
    (DrawCompleted,
     u\<lparr>drawError := None,
        drawSuccess := Some ''Draw completed! Everyone now has someone to surprise.'',
        isRunningDraw := False\<rparr>,
     st(gid g \<mapsto> d\<lparr>assignments := Some (draw_assignments (random e) g),
                    drawRunAt := Some (serverTime e)\<rparr>))"
  using assms by (simp add: handleRunDraw_def updateDoc_def Let_def)


lemma valid_random_tape:
  assumes "rs \<noteq> []" and "list_all (\<lambda>r. 0 \<le> r \<and> r < 1) rs"
  shows "valid_random (tape rs)"
proof -
  have "\<And>k. k mod length rs < length rs" using assms(1) by simp
  then have "\<And>k. rs ! (k mod length rs) \<in> set rs" by simp
  then show ?thesis using assms(2) by (simp add: valid_random_def tape_def list_all_iff)
qed

text \<open>
  C1. A group's \<open>memberIds\<close> is a set of user ids kept as a list: it lists no id twice,
  which is what every handler stores (\<open>perform_members_once\<close> below). For every such group
  with at least 2 member ids, a draw run by the owner, with the group's document in the
  store and the write accepted, completes, and the \<open>assignments\<close> map it commits is a
  bijection from \<open>memberIds\<close> onto \<open>memberIds\<close> with no fixed point, in which the chain from
  giver to recipient started at any member visits every member exactly once and is back at
  the start after \<open>n\<close> steps, whatever numbers in \<open>[0, 1)\<close> \<open>Math.random\<close> returns. Nothing
  is asked of \<open>members\<close>.
\<close>

theorem runDraw_single_cycle:
  assumes "valid_random (random e)"
    and "usr = Some x" and "uid x = ownerId g"
    and "2 \<le> length (memberIds g)" and "distinct (memberIds g)"
    and "writeIO e = Succeeds" and "st (gid g) = Some d"
  shows "fst (handleRunDraw usr g e u st) = DrawCompleted \<and>
    (\<exists>a. map_option assignments (snd (snd (handleRunDraw usr g e u st)) (gid g)) = Some (Some a)
       \<and> bijection_on (memberIds g) a
       \<and> no_fixed_point (memberIds g) a
       \<and> single_cycle (memberIds g) a)"
proof -
  let ?a = "draw_assignments (random e) g"
  have c: "handleRunDraw usr g e u st =
    (DrawCompleted,
     u\<lparr>drawError := None,
        drawSuccess := Some ''Draw completed! Everyone now has someone to surprise.'',
        isRunningDraw := False\<rparr>,
     st(gid g \<mapsto> d\<lparr>assignments := Some ?a, drawRunAt := Some (serverTime e)\<rparr>))"
    using assms(2,3,4,6,7) by (rule handleRunDraw_commit)
  have "map_option assignments (snd (snd (handleRunDraw usr g e u st)) (gid g)) = Some (Some ?a)"
    by (simp add: c)
  moreover note draw_assignments_valid [OF assms(1,5,4)]
  ultimately show ?thesis by (auto simp: c)
qed

theorem runDraw_single_cycle_witness:
  "fst (handleRunDraw (Some (sample_user ''ann'' ''Ann''))
          (toGroup ''g1'' (sample_doc ''ann'' [''ann'', ''bob'', ''cy''] [''ann'', ''bob'', ''cy''] None))
          (sample_env Succeeds Succeeds [1 / 2, 3 / 4]) initial_ui
          [''g1'' \<mapsto> sample_doc ''ann'' [''ann'', ''bob'', ''cy''] [''ann'', ''bob'', ''cy''] None])
     = DrawCompleted \<and>
   (\<exists>a. map_option assignments
          (snd (snd (handleRunDraw (Some (sample_user ''ann'' ''Ann''))
             (toGroup ''g1'' (sample_doc ''ann'' [''ann'', ''bob'', ''cy''] [''ann'', ''bob'', ''cy''] None))
             (sample_env Succeeds Succeeds [1 / 2, 3 / 4]) initial_ui
             [''g1'' \<mapsto> sample_doc ''ann'' [''ann'', ''bob'', ''cy''] [''ann'', ''bob'', ''cy''] None]))
            (gid (toGroup ''g1'' (sample_doc ''ann'' [''ann'', ''bob'', ''cy''] [''ann'', ''bob'', ''cy''] None))))
        = Some (Some a)
      \<and> bijection_on (memberIds (toGroup ''g1'' (sample_doc ''ann'' [''ann'', ''bob'', ''cy''] [''ann'', ''bob'', ''cy''] None))) a
      \<and> no_fixed_point (memberIds (toGroup ''g1'' (sample_doc ''ann'' [''ann'', ''bob'', ''cy''] [''ann'', ''bob'', ''cy''] None))) a
      \<and> single_cycle (memberIds (toGroup ''g1'' (sample_doc ''ann'' [''ann'', ''bob'', ''cy''] [''ann'', ''bob'', ''cy''] None))) a)"
proof -
  have r: "valid_random (random (sample_env Succeeds Succeeds [1 / 2, 3 / 4]))"
    by (simp add: sample_env_def valid_random_tape)
  show ?thesis
    by (rule runDraw_single_cycle [OF r, where x = "sample_user ''ann'' ''Ann''"
          and d = "sample_doc ''ann'' [''ann'', ''bob'', ''cy''] [''ann'', ''bob'', ''cy''] None"])
       (simp_all add: sample_user_def toGroup_def sample_doc_def sample_env_def)
qed

subsection \<open>Draws that are refused\<close>

text \<open>
  C2. For every group with fewer than 2 entries in \<open>memberIds\<close>, a draw invoked by the owner
  takes the \<open>InsufficientMembers\<close> branch: it sets the draw error message and returns the
  store as it was, so no document (and no \<open>assignments\<close> field) is written.
\<close>

theorem runDraw_insufficient_members:
  assumes "usr = Some x" and "uid x = ownerId g" and "length (memberIds g) < 2"
  shows "handleRunDraw usr g e u st =
    (InsufficientMembers,
     u\<lparr>drawError := Some ''You need at least two members to run a draw.'', drawSuccess := None\<rparr>,
     st)"
  using assms by (simp add: handleRunDraw_def Let_def)

theorem runDraw_insufficient_members_witness:
  "handleRunDraw (Some (sample_user ''ann'' ''Ann''))
     (toGroup ''g1'' (sample_doc ''ann'' [''ann''] [''ann''] None))
     (sample_env Succeeds Succeeds [0]) initial_ui
     [''g1'' \<mapsto> sample_doc ''ann'' [''ann''] [''ann''] None] =
   (InsufficientMembers,
    initial_ui\<lparr>drawError := Some ''You need at least two members to run a draw.'', drawSuccess := None\<rparr>,
    [''g1'' \<mapsto> sample_doc ''ann'' [''ann''] [''ann''] None])"
  by (rule runDraw_insufficient_members [where x = "sample_user ''ann'' ''Ann''"])
     (simp_all add: sample_user_def toGroup_def sample_doc_def)

text \<open>
  C4. For every group and every signed-in requester whose id differs from the group's
  \<open>ownerId\<close>, both \<open>handleRunDraw\<close> and \<open>handleDeleteGroup\<close> take the \<open>Forbidden\<close> branch
  (the early return) and return the component state and the store as they were: no
  document is changed or removed.
\<close>

theorem non_owner_forbidden:
  assumes "usr = Some x" and "uid x \<noteq> ownerId g"
  shows "handleRunDraw usr g e u st = (Forbidden, u, st) \<and>
         handleDeleteGroup usr g e u st = (Forbidden, u, st)"
  using assms by (simp add: handleRunDraw_def handleDeleteGroup_def)

theorem non_owner_forbidden_witness:
  "handleRunDraw (Some (sample_user ''bob'' ''Bob''))
     (toGroup ''g1'' (sample_doc ''ann'' [''ann'', ''bob''] [''ann'', ''bob''] None))
     (sample_env Succeeds Succeeds [0]) initial_ui
     [''g1'' \<mapsto> sample_doc ''ann'' [''ann'', ''bob''] [''ann'', ''bob''] None] =
   (Forbidden, initial_ui, [''g1'' \<mapsto> sample_doc ''ann'' [''ann'', ''bob''] [''ann'', ''bob''] None]) \<and>
   handleDeleteGroup (Some (sample_user ''bob'' ''Bob''))
     (toGroup ''g1'' (sample_doc ''ann'' [''ann'', ''bob''] [''ann'', ''bob''] None))
     (sample_env Succeeds Succeeds [0]) initial_ui
     [''g1'' \<mapsto> sample_doc ''ann'' [''ann'', ''bob''] [''ann'', ''bob''] None] =
   (Forbidden, initial_ui, [''g1'' \<mapsto> sample_doc ''ann'' [''ann'', ''bob''] [''ann'', ''bob''] None])"
  by (rule non_owner_forbidden [where x = "sample_user ''bob'' ''Bob''"])
     (simp_all add: sample_user_def toGroup_def sample_doc_def)

subsection \<open>What a successful draw writes\<close>

lemma handleRunDraw_completed:
  assumes "handleRunDraw usr g e u st = (DrawCompleted, u', st')"
  shows "\<exists>d. st (gid g) = Some d \<and>
    updateDoc Succeeds st (gid g)
      (\<lambda>d. d\<lparr>assignments := Some (draw_assignments (random e) g), drawRunAt := Some (serverTime e)\<rparr>)
      = Inr st'"
  using assms
  by (auto simp: handleRunDraw_def updateDoc_def Let_def
      split: if_splits option.splits io.splits sum.splits)

text \<open>
  C9. For every run of \<open>handleRunDraw\<close> that completes the draw, the group's document
  existed, and the new store is the old one with that one document updated by a single
  \<open>updateDoc\<close>: \<open>assignments\<close> becomes the map computed from the passed group's
  \<open>members\<close> and \<open>memberIds\<close> alone (whatever \<open>assignments\<close> held before, also on a
  re-run), \<open>drawRunAt\<close> becomes the server time, and \<open>name\<close>, \<open>description\<close>, the owner
  fields, \<open>memberIds\<close>, \<open>members\<close>, \<open>customFields\<close>, \<open>memberResponses\<close> and \<open>createdAt\<close> keep
  their values.
\<close>

theorem draw_commit_frame:
  assumes "handleRunDraw usr g e u st = (DrawCompleted, u', st')"
  shows "\<exists>d d'. st (gid g) = Some d \<and> st' (gid g) = Some d' \<and>
      st' = st(gid g \<mapsto> d\<lparr>assignments :=
                 Some (draw_loop (members g) (shuffle (random e) (memberIds g)) 0 Map.empty),
               drawRunAt := Some (serverTime e)\<rparr>) \<and>
      assignments d' = Some (draw_loop (members g) (shuffle (random e) (memberIds g)) 0 Map.empty) \<and>
      drawRunAt d' = Some (serverTime e) \<and>
      name d' = name d \<and> description d' = description d \<and>
      ownerId d' = ownerId d \<and> ownerName d' = ownerName d \<and> ownerPhotoURL d' = ownerPhotoURL d \<and>
      memberIds d' = memberIds d \<and> members d' = members d \<and>
      customFields d' = customFields d \<and> memberResponses d' = memberResponses d \<and>
      createdAt d' = createdAt d"
proof -
  from handleRunDraw_completed [OF assms] obtain d where
    d: "st (gid g) = Some d" and
    w: "updateDoc Succeeds st (gid g)
      (\<lambda>d. d\<lparr>assignments := Some (draw_assignments (random e) g), drawRunAt := Some (serverTime e)\<rparr>)
      = Inr st'"
    by blast
  have "st' = st(gid g \<mapsto> d\<lparr>assignments := Some (draw_assignments (random e) g),
                 drawRunAt := Some (serverTime e)\<rparr>)"
    using w d by (simp add: updateDoc_def)
  then show ?thesis using d by (simp add: draw_assignments_def)
qed


theorem draw_commit_frame_witness:
  "\<exists>d d'.
     [''g1'' \<mapsto> (sample_doc ''ann'' [''ann'', ''bob''] [''ann'', ''bob''] None)
               \<lparr>assignments := Some [''ann'' \<mapsto> mk_assignment Map.empty ''cy''], drawRunAt := Some 1\<rparr>]
       (gid (toGroup ''g1'' (sample_doc ''ann'' [''ann'', ''bob''] [''ann'', ''bob''] None))) = Some d \<and>
     snd (snd (handleRunDraw (Some (sample_user ''ann'' ''Ann''))
        (toGroup ''g1'' (sample_doc ''ann'' [''ann'', ''bob''] [''ann'', ''bob''] None))
        (sample_env Succeeds Succeeds [1 / 2]) initial_ui
        [''g1'' \<mapsto> (sample_doc ''ann'' [''ann'', ''bob''] [''ann'', ''bob''] None)
               \<lparr>assignments := Some [''ann'' \<mapsto> mk_assignment Map.empty ''cy''], drawRunAt := Some 1\<rparr>]))
       (gid (toGroup ''g1'' (sample_doc ''ann'' [''ann'', ''bob''] [''ann'', ''bob''] None))) = Some d' \<and>
     snd (snd (handleRunDraw (Some (sample_user ''ann'' ''Ann''))
        (toGroup ''g1'' (sample_doc ''ann'' [''ann'', ''bob''] [''ann'', ''bob''] None))
        (sample_env Succeeds Succeeds [1 / 2]) initial_ui
        [''g1'' \<mapsto> (sample_doc ''ann'' [''ann'', ''bob''] [''ann'', ''bob''] None)
               \<lparr>assignments := Some [''ann'' \<mapsto> mk_assignment Map.empty ''cy''], drawRunAt := Some 1\<rparr>])) =
       [''g1'' \<mapsto> (sample_doc ''ann'' [''ann'', ''bob''] [''ann'', ''bob''] None)
               \<lparr>assignments := Some [''ann'' \<mapsto> mk_assignment Map.empty ''cy''], drawRunAt := Some 1\<rparr>]
       (gid (toGroup ''g1'' (sample_doc ''ann'' [''ann'', ''bob''] [''ann'', ''bob''] None)) \<mapsto>
          d\<lparr>assignments :=
               Some (draw_loop (members (toGroup ''g1'' (sample_doc ''ann'' [''ann'', ''bob''] [''ann'', ''bob''] None)))
                 (shuffle (random (sample_env Succeeds Succeeds [1 / 2]))
                    (memberIds (toGroup ''g1'' (sample_doc ''ann'' [''ann'', ''bob''] [''ann'', ''bob''] None))))
                 0 Map.empty),
             drawRunAt := Some (serverTime (sample_env Succeeds Succeeds [1 / 2]))\<rparr>) \<and>
     assignments d' =
       Some (draw_loop (members (toGroup ''g1'' (sample_doc ''ann'' [''ann'', ''bob''] [''ann'', ''bob''] None)))
         (shuffle (random (sample_env Succeeds Succeeds [1 / 2]))
            (memberIds (toGroup ''g1'' (sample_doc ''ann'' [''ann'', ''bob''] [''ann'', ''bob''] None))))
         0 Map.empty) \<and>
     drawRunAt d' = Some (serverTime (sample_env Succeeds Succeeds [1 / 2])) \<and>
     name d' = name d \<and> description d' = description d \<and>
     ownerId d' = ownerId d \<and> ownerName d' = ownerName d \<and> ownerPhotoURL d' = ownerPhotoURL d \<and>
     memberIds d' = memberIds d \<and> members d' = members d \<and>
     customFields d' = customFields d \<and> memberResponses d' = memberResponses d \<and>
     createdAt d' = createdAt d"
proof -
  let ?usr = "Some (sample_user ''ann'' ''Ann'')"
  let ?g = "toGroup ''g1'' (sample_doc ''ann'' [''ann'', ''bob''] [''ann'', ''bob''] None)"
  let ?e = "sample_env Succeeds Succeeds [1 / 2]"
  let ?d = "(sample_doc ''ann'' [''ann'', ''bob''] [''ann'', ''bob''] None)
               \<lparr>assignments := Some [''ann'' \<mapsto> mk_assignment Map.empty ''cy''], drawRunAt := Some 1\<rparr>"
  let ?r = "handleRunDraw ?usr ?g ?e initial_ui [''g1'' \<mapsto> ?d]"
  have "fst ?r = DrawCompleted"
    by (simp add: handleRunDraw_commit [where x = "sample_user ''ann'' ''Ann''" and d = ?d]
        sample_user_def toGroup_def sample_doc_def sample_env_def)
  then have run: "?r = (DrawCompleted, fst (snd ?r), snd (snd ?r))"
    by (metis prod.collapse)
  show ?thesis by (rule draw_commit_frame [OF run])
qed

subsection \<open>Recipients without a profile\<close>

lemma draw_loop_records:
  "(\<forall>giver r. acc giver = Some r \<longrightarrow> r = mk_assignment mem (recipientId r)) \<Longrightarrow>
   draw_loop mem sh index acc giver = Some r \<Longrightarrow> r = mk_assignment mem (recipientId r)"
proof (induction mem sh index acc rule: draw_loop.induct)
  case (1 mem sh index acc)
  show ?case
  proof (cases "index < length sh")
    case True
    let ?acc = "acc(sh ! index \<mapsto> mk_assignment mem (sh ! ((index + 1) mod length sh)))"
    have inv: "\<forall>giver r. ?acc giver = Some r \<longrightarrow> r = mk_assignment mem (recipientId r)"
      using "1.prems"(1) by (auto simp: mk_assignment_recipientId split: if_splits)
    have run: "draw_loop mem sh (index + 1) ?acc giver = Some r"
      using "1.prems"(2) by (simp only: draw_loop_unfold [OF True])
    show ?thesis by (rule "1.IH" [OF True refl refl inv run])
  next
    case False
    then show ?thesis using "1.prems" by (simp add: draw_loop_done)
  qed
qed

lemma draw_assignments_record:
  assumes "draw_assignments rnd g giver = Some r"
  shows "r = mk_assignment (members g) (recipientId r)"
proof (rule draw_loop_records)
  show "\<forall>giver r. Map.empty giver = Some r \<longrightarrow> r = mk_assignment (members g) (recipientId r)"
    by simp
  show "draw_loop (members g) (shuffle rnd (memberIds g)) 0 Map.empty giver = Some r"
    using assms by (simp only: draw_assignments_def)
qed

lemma mk_assignment_placeholder:
  "mem m = None \<Longrightarrow>
   mk_assignment mem m = \<lparr>recipientId = m, recipientName = ''Mystery Santa'', recipientPhotoURL = None\<rparr>"
  by (simp add: mk_assignment_def)

lemma draw_assignments_onto:
  assumes "valid_random rnd" and "distinct (memberIds g)" and "2 \<le> length (memberIds g)"
    and "m \<in> set (memberIds g)"
  shows "\<exists>giver \<in> set (memberIds g). draw_assignments rnd g giver = Some (mk_assignment (members g) m)"
proof -
  let ?a = "draw_assignments rnd g"
  have b: "bijection_on (memberIds g) ?a" by (rule draw_assignments_valid(1) [OF assms(1,2,3)])
  then have "recipient ?a ` set (memberIds g) = set (memberIds g)"
    by (simp add: bijection_on_def bij_betw_def)
  then obtain giver where gv: "giver \<in> set (memberIds g)" "recipient ?a giver = m"
    using assms(4) by (metis imageE)
  from b gv(1) obtain r where r: "?a giver = Some r" by (auto simp: bijection_on_def)
  then have "recipientId r = m" using gv(2) by (simp add: recipient_def)
  then have "r = mk_assignment (members g) m" using draw_assignments_record [OF r] by simp
  then show ?thesis using gv(1) r by blast
qed

text \<open>
  C10. With no assumption on \<open>members\<close>: for every group of at least 2 member ids, a draw
  by the owner (document present, write accepted) completes, and every record of the
  committed map whose recipient has no entry in \<open>members\<close> carries the display name
  \<open>Mystery Santa\<close> and a null avatar. When moreover no id is listed twice, every member
  without a profile is the recipient of such a record.
\<close>

theorem draw_missing_profile:
  assumes "usr = Some x" and "uid x = ownerId g" and "2 \<le> length (memberIds g)"
    and "writeIO e = Succeeds" and "st (gid g) = Some d"
  shows "fst (handleRunDraw usr g e u st) = DrawCompleted \<and>
    (\<exists>a. map_option assignments (snd (snd (handleRunDraw usr g e u st)) (gid g)) = Some (Some a) \<and>
       (\<forall>giver r. a giver = Some r \<and> members g (recipientId r) = None \<longrightarrow>
          recipientName r = ''Mystery Santa'' \<and> recipientPhotoURL r = None) \<and>
       (valid_random (random e) \<and> distinct (memberIds g) \<longrightarrow>
          (\<forall>m \<in> set (memberIds g). members g m = None \<longrightarrow>
             (\<exists>giver \<in> set (memberIds g). a giver =
                Some \<lparr>recipientId = m, recipientName = ''Mystery Santa'', recipientPhotoURL = None\<rparr>))))"
proof -
  let ?a = "draw_assignments (random e) g"
  have c: "handleRunDraw usr g e u st =
    (DrawCompleted,
     u\<lparr>drawError := None,
        drawSuccess := Some ''Draw completed! Everyone now has someone to surprise.'',
        isRunningDraw := False\<rparr>,
     st(gid g \<mapsto> d\<lparr>assignments := Some ?a, drawRunAt := Some (serverTime e)\<rparr>))"
    using assms by (rule handleRunDraw_commit)
  have 1: "map_option assignments (snd (snd (handleRunDraw usr g e u st)) (gid g)) = Some (Some ?a)"
    by (simp add: c)
  have 2: "recipientName r = ''Mystery Santa'' \<and> recipientPhotoURL r = None"
    if "?a giver = Some r" "members g (recipientId r) = None" for giver r
  proof -
    have "r = mk_assignment (members g) (recipientId r)" by (rule draw_assignments_record [OF that(1)])
    then have "r = \<lparr>recipientId = recipientId r, recipientName = ''Mystery Santa'', recipientPhotoURL = None\<rparr>"
      using mk_assignment_placeholder [of "members g" "recipientId r"] that(2) by simp
    then show ?thesis by (metis assignment.select_convs(2,3))
  qed
  have 3: "\<exists>giver \<in> set (memberIds g). ?a giver =
      Some \<lparr>recipientId = m, recipientName = ''Mystery Santa'', recipientPhotoURL = None\<rparr>"
    if "valid_random (random e)" "distinct (memberIds g)" "m \<in> set (memberIds g)" "members g m = None" for m
    using draw_assignments_onto [OF that(1,2) assms(3) that(3)]
      mk_assignment_placeholder [of "members g" m] that(4)
    by simp
  show ?thesis using 1 2 3 by (auto simp: c)
qed


theorem draw_missing_profile_witness:
  "fst (handleRunDraw (Some (sample_user ''ann'' ''Ann''))
          (toGroup ''g1'' (sample_doc ''ann'' [''ann'', ''bob'', ''cy''] [''ann'', ''bob''] None))
          (sample_env Succeeds Succeeds [1 / 2, 3 / 4]) initial_ui
          [''g1'' \<mapsto> sample_doc ''ann'' [''ann'', ''bob'', ''cy''] [''ann'', ''bob''] None])
     = DrawCompleted \<and>
   (\<exists>a. map_option assignments
          (snd (snd (handleRunDraw (Some (sample_user ''ann'' ''Ann''))
             (toGroup ''g1'' (sample_doc ''ann'' [''ann'', ''bob'', ''cy''] [''ann'', ''bob''] None))
             (sample_env Succeeds Succeeds [1 / 2, 3 / 4]) initial_ui
             [''g1'' \<mapsto> sample_doc ''ann'' [''ann'', ''bob'', ''cy''] [''ann'', ''bob''] None]))
            ''g1'')
        = Some (Some a) \<and>
      (\<exists>giver. a giver =
         Some \<lparr>recipientId = ''cy'', recipientName = ''Mystery Santa'', recipientPhotoURL = None\<rparr>))"
proof -
  let ?x = "sample_user ''ann'' ''Ann''"
  let ?d = "sample_doc ''ann'' [''ann'', ''bob'', ''cy''] [''ann'', ''bob''] None"
  let ?g = "toGroup ''g1'' ?d"
  let ?e = "sample_env Succeeds Succeeds [1 / 2, 3 / 4]"
  let ?st = "[''g1'' \<mapsto> ?d]"
  have p: "uid ?x = ownerId ?g" "2 \<le> length (memberIds ?g)" "writeIO ?e = Succeeds"
    "?st (gid ?g) = Some ?d"
    by (simp_all add: sample_user_def toGroup_def sample_doc_def sample_env_def)
  have q: "valid_random (random ?e)" "distinct (memberIds ?g)" "''cy'' \<in> set (memberIds ?g)"
    "members ?g ''cy'' = None" "gid ?g = ''g1''"
    by (simp_all add: toGroup_def sample_doc_def sample_env_def valid_random_tape)
  from draw_missing_profile [where usr = "Some ?x" and x = ?x and g = ?g and e = ?e and st = ?st
      and d = ?d and u = initial_ui, OF refl p] q
  show ?thesis by fastforce
qed

subsection \<open>Joining\<close>

lemma trim_empty_iff: "trim v = [] \<longleftrightarrow> list_all is_ws v"
proof
  assume "trim v = []"
  then have e: "dropWhile is_ws (rev (dropWhile is_ws v)) = []" by (simp add: trim_def)
  have "dropWhile is_ws v = []"
  proof (rule ccontr)
    assume n: "dropWhile is_ws v \<noteq> []"
    then have "\<not> is_ws (hd (dropWhile is_ws v))" by (rule hd_dropWhile)
    moreover have "hd (dropWhile is_ws v) \<in> set (rev (dropWhile is_ws v))" using n by simp
    moreover have "\<forall>c \<in> set (rev (dropWhile is_ws v)). is_ws c"
      using e by (rule iffD1 [OF dropWhile_eq_Nil_conv])
    ultimately show False by blast
  qed
  then have "\<forall>c \<in> set v. is_ws c" by (rule iffD1 [OF dropWhile_eq_Nil_conv])
  then show "list_all is_ws v" by (simp only: list_all_iff)
next
  assume "list_all is_ws v"
  then have "\<forall>c \<in> set v. is_ws c" by (simp only: list_all_iff)
  then have d: "dropWhile is_ws v = []" by (rule iffD2 [OF dropWhile_eq_Nil_conv])
  show "trim v = []" unfolding trim_def d by simp
qed

lemma field_missing_iff: "field_missing responses f = lacks_answer responses f"
proof (cases "responses (fid f)")
  case None
  then show ?thesis by (simp add: field_missing_def lacks_answer_def)
next
  case (Some v)
  have "v = [] \<or> trim v = [] \<longleftrightarrow> list_all is_ws v"
    by (cases v) (simp_all add: trim_empty_iff)
  then show ?thesis using Some by (simp add: field_missing_def lacks_answer_def)
qed

lemma handleJoinGroup_found:
  assumes "usr = Some x" and "trim (joinCode u) \<noteq> []" and "readIO e = Succeeds"
    and "st (trim (joinCode u)) = Some d"
  shows "handleJoinGroup usr e u st =
    (if uid x \<in> set (memberIds d) then
       (AlreadyMember,
        u\<lparr>joinError := Some ''You are already part of that group.'', joinSuccess := None,
          isJoining := False\<rparr>, st)
     else
       (let fields = (case customFields d of None \<Rightarrow> [] | Some fs \<Rightarrow> fs);
            missingFields = filter (field_missing (joinResponses u)) fields
        in if missingFields \<noteq> [] then
             (IncompleteResponses,
              u\<lparr>joinError := Some (''Please fill out all required fields: ''
                                   @ join '', '' (map label missingFields)),
                joinSuccess := None, isJoining := False\<rparr>, st)
           else
             (case updateDoc (writeIO e) st (trim (joinCode u))
                (\<lambda>d. d\<lparr>memberIds := arrayUnion (memberIds d) (uid x),
                        members := (members d)(uid x \<mapsto>
                          \<lparr>displayName = getDisplayName x, photoURL = userPhotoURL x\<rparr>),
                        memberResponses := (memberResponses d)(uid x \<mapsto> joinResponses u)\<rparr>) of
                Inr st' \<Rightarrow>
                  (Joined,
                   u\<lparr>joinError := None,
                     joinSuccess := Some ''Welcome aboard! You have joined the group.'',
                     joinCode := [], joinGroupFields := [], joinResponses := Map.empty,
                     selectedGroupId := Some (trim (joinCode u)), isJoining := False\<rparr>, st')
              | Inl _ \<Rightarrow>
                  (StoreUnavailable,
                   u\<lparr>joinError := Some ''Could not join that group. Please double-check the code.'',
                     joinSuccess := None, isJoining := False\<rparr>, st))))"
  using assms
  by (auto simp: handleJoinGroup_def getDoc_def Let_def split: sum.splits)

text \<open>
  C3. For every signed-in user and join code whose trimmed form is the id of a stored
  group the user is not a member of (the lookup answering): if at least one of the
  group's \<open>customFields\<close> has no entry in \<open>joinResponses\<close> or an entry of white space only,
  \<open>handleJoinGroup\<close> takes the \<open>IncompleteResponses\<close> branch, its error message is the
  fixed prefix followed by the labels of exactly those fields, in schema order and
  separated by a comma and a space, and the store is returned as it was: no member id,
  no profile and no responses are written.
\<close>

theorem join_incomplete_responses:
  assumes "usr = Some x" and "trim (joinCode u) \<noteq> []" and "readIO e = Succeeds"
    and "st (trim (joinCode u)) = Some d" and "uid x \<notin> set (memberIds d)"
    and "schema = (case customFields d of None \<Rightarrow> [] | Some fs \<Rightarrow> fs)"
    and "\<exists>f \<in> set schema. lacks_answer (joinResponses u) f"
  shows "fst (handleJoinGroup usr e u st) = IncompleteResponses \<and>
    joinError (fst (snd (handleJoinGroup usr e u st))) =
      Some (''Please fill out all required fields: ''
            @ join '', '' (map label (filter (lacks_answer (joinResponses u)) schema))) \<and>
    snd (snd (handleJoinGroup usr e u st)) = st"
proof -
  have eq: "filter (field_missing (joinResponses u)) schema = filter (lacks_answer (joinResponses u)) schema"
    by (simp add: field_missing_iff [abs_def])
  have ne: "filter (lacks_answer (joinResponses u)) schema \<noteq> []"
    using assms(7) by (simp add: filter_empty_conv)
  have run: "handleJoinGroup usr e u st =
      (IncompleteResponses,
       u\<lparr>joinError := Some (''Please fill out all required fields: ''
              @ join '', '' (map label (filter (lacks_answer (joinResponses u)) schema))),
         joinSuccess := None, isJoining := False\<rparr>, st)"
    using handleJoinGroup_found [where usr = usr and x = x and u = u and e = e and st = st and d = d]
      assms(1-5) ne
    by (simp add: assms(6) [symmetric] eq Let_def)
  show ?thesis by (simp add: run)
qed


theorem join_incomplete_responses_witness:
  "fst (handleJoinGroup (Some (sample_user ''bob'' ''Bob'')) (sample_env Succeeds Succeeds [0])
          (initial_ui\<lparr>joinCode := ''  Zx3kQ9vLm2TpR7aYc1Bd '',
             joinResponses := [''f1'' \<mapsto> ''books'', ''f2'' \<mapsto> ''   '']\<rparr>)
          [''Zx3kQ9vLm2TpR7aYc1Bd'' \<mapsto> sample_doc ''ann'' [''ann''] [''ann'']
             (Some [\<lparr>fid = ''f1'', label = ''Wish list'', placeholder = None\<rparr>,
                    \<lparr>fid = ''f2'', label = ''Shirt size'', placeholder = None\<rparr>,
                    \<lparr>fid = ''f3'', label = ''Allergies'', placeholder = Some ''none''\<rparr>])])
     = IncompleteResponses \<and>
   joinError (fst (snd (handleJoinGroup (Some (sample_user ''bob'' ''Bob'')) (sample_env Succeeds Succeeds [0])
          (initial_ui\<lparr>joinCode := ''  Zx3kQ9vLm2TpR7aYc1Bd '',
             joinResponses := [''f1'' \<mapsto> ''books'', ''f2'' \<mapsto> ''   '']\<rparr>)
          [''Zx3kQ9vLm2TpR7aYc1Bd'' \<mapsto> sample_doc ''ann'' [''ann''] [''ann'']
             (Some [\<lparr>fid = ''f1'', label = ''Wish list'', placeholder = None\<rparr>,
                    \<lparr>fid = ''f2'', label = ''Shirt size'', placeholder = None\<rparr>,
                    \<lparr>fid = ''f3'', label = ''Allergies'', placeholder = Some ''none''\<rparr>])])))
     = Some ''Please fill out all required fields: Shirt size, Allergies'' \<and>
   snd (snd (handleJoinGroup (Some (sample_user ''bob'' ''Bob'')) (sample_env Succeeds Succeeds [0])
          (initial_ui\<lparr>joinCode := ''  Zx3kQ9vLm2TpR7aYc1Bd '',
             joinResponses := [''f1'' \<mapsto> ''books'', ''f2'' \<mapsto> ''   '']\<rparr>)
          [''Zx3kQ9vLm2TpR7aYc1Bd'' \<mapsto> sample_doc ''ann'' [''ann''] [''ann'']
             (Some [\<lparr>fid = ''f1'', label = ''Wish list'', placeholder = None\<rparr>,
                    \<lparr>fid = ''f2'', label = ''Shirt size'', placeholder = None\<rparr>,
                    \<lparr>fid = ''f3'', label = ''Allergies'', placeholder = Some ''none''\<rparr>])]))
     = [''Zx3kQ9vLm2TpR7aYc1Bd'' \<mapsto> sample_doc ''ann'' [''ann''] [''ann'']
             (Some [\<lparr>fid = ''f1'', label = ''Wish list'', placeholder = None\<rparr>,
                    \<lparr>fid = ''f2'', label = ''Shirt size'', placeholder = None\<rparr>,
                    \<lparr>fid = ''f3'', label = ''Allergies'', placeholder = Some ''none''\<rparr>])]"
proof -
  let ?x = "sample_user ''bob'' ''Bob''"
  let ?e = "sample_env Succeeds Succeeds [0]"
  let ?u = "initial_ui\<lparr>joinCode := ''  Zx3kQ9vLm2TpR7aYc1Bd '',
             joinResponses := [''f1'' \<mapsto> ''books'', ''f2'' \<mapsto> ''   '']\<rparr>"
  let ?fs = "[\<lparr>fid = ''f1'', label = ''Wish list'', placeholder = None\<rparr>,
                    \<lparr>fid = ''f2'', label = ''Shirt size'', placeholder = None\<rparr>,
                    \<lparr>fid = ''f3'', label = ''Allergies'', placeholder = Some ''none''\<rparr>]"
  let ?d = "sample_doc ''ann'' [''ann''] [''ann''] (Some ?fs)"
  let ?st = "[''Zx3kQ9vLm2TpR7aYc1Bd'' \<mapsto> ?d]"
  have t: "trim ''  Zx3kQ9vLm2TpR7aYc1Bd '' = ''Zx3kQ9vLm2TpR7aYc1Bd''"
    by (simp add: trim_def is_ws_def)
  have p: "trim (joinCode ?u) \<noteq> []" "readIO ?e = Succeeds" "?st (trim (joinCode ?u)) = Some ?d"
    "uid ?x \<notin> set (memberIds ?d)" "?fs = (case customFields ?d of None \<Rightarrow> [] | Some fs \<Rightarrow> fs)"
    "\<exists>f \<in> set ?fs. lacks_answer (joinResponses ?u) f"
    by (simp_all add: t sample_env_def sample_doc_def sample_user_def lacks_answer_def)
  have m: "join '', '' (map label (filter (lacks_answer (joinResponses ?u)) ?fs)) = ''Shirt size, Allergies''"
    by (simp add: lacks_answer_def is_ws_def)
  from join_incomplete_responses [where usr = "Some ?x" and x = ?x and u = ?u and e = ?e
      and st = ?st and d = ?d and schema = ?fs, OF refl p]
  show ?thesis by (simp only: m append.simps)
qed

subsection \<open>Member ids stay unique\<close>

lemma arrayUnion_distinct: "distinct xs \<Longrightarrow> distinct (arrayUnion xs x)"
  by (simp add: arrayUnion_def)

lemma members_once_put:
  "members_once st \<Longrightarrow> distinct (memberIds d) \<Longrightarrow> members_once (st(k \<mapsto> d))"
  by (simp add: members_once_def)

lemma members_once_remove: "members_once st \<Longrightarrow> members_once (st(k := None))"
  by (simp add: members_once_def)

lemma members_once_updateDoc:
  assumes "members_once st" and "updateDoc w st k upd = Inr st'"
    and "\<And>d. distinct (memberIds d) \<Longrightarrow> distinct (memberIds (upd d))"
  shows "members_once st'"
proof -
  from assms(2) obtain d where d: "st k = Some d" "st' = st(k \<mapsto> upd d)"
    by (auto simp: updateDoc_def split: io.splits option.splits)
  have "distinct (memberIds d)" using assms(1) d(1) by (simp add: members_once_def)
  then show ?thesis using assms(1,3) d(2) by (simp add: members_once_put)
qed

lemma handleCreateGroup_members_once:
  assumes "members_once st"
  shows "members_once (snd (snd (handleCreateGroup usr e u st)))"
  using assms
  by (auto simp: handleCreateGroup_def addDoc_def Let_def members_once_put
      split: option.splits io.splits if_splits)

lemma handleJoinGroup_members_once:
  assumes "members_once st"
  shows "members_once (snd (snd (handleJoinGroup usr e u st)))"
proof -
  have upd: "members_once st'"
    if "updateDoc w st k
          (\<lambda>d. d\<lparr>memberIds := arrayUnion (memberIds d) i, members := (members d)(i \<mapsto> p),
                  memberResponses := (memberResponses d)(i \<mapsto> r)\<rparr>) = Inr st'"
    for w k i p r st'
    using assms that by (rule members_once_updateDoc) (simp add: arrayUnion_distinct)
  show ?thesis
    using assms
    by (auto simp: handleJoinGroup_def Let_def upd split: option.splits sum.splits)
qed

lemma handleRunDraw_members_once:
  assumes "members_once st"
  shows "members_once (snd (snd (handleRunDraw usr g e u st)))"
proof -
  have upd: "members_once st'"
    if "updateDoc w st k (\<lambda>d. d\<lparr>assignments := a, drawRunAt := t\<rparr>) = Inr st'" for w k a t st'
    using assms that by (rule members_once_updateDoc) simp
  show ?thesis
    using assms
    by (auto simp: handleRunDraw_def Let_def upd split: option.splits sum.splits)
qed

lemma handleDeleteGroup_members_once:
  assumes "members_once st"
  shows "members_once (snd (snd (handleDeleteGroup usr g e u st)))"
  using assms
  by (auto simp: handleDeleteGroup_def deleteDoc_def Let_def members_once_remove
      split: option.splits io.splits)

lemma perform_members_once:
  assumes "members_once st"
  shows "members_once (snd (snd (perform usr e req u st)))"
  using assms
  by (cases req)
    (simp_all add: perform_def handleCreateGroup_members_once handleJoinGroup_members_once
      handleRunDraw_members_once handleDeleteGroup_members_once)

lemma handleJoinGroup_joined:
  assumes "fst (handleJoinGroup usr e u st) = Joined"
  shows "\<exists>x d. usr = Some x \<and> st (trim (joinCode u)) = Some d \<and> uid x \<notin> set (memberIds d) \<and>
    snd (snd (handleJoinGroup usr e u st)) =
      st(trim (joinCode u) \<mapsto>
           d\<lparr>memberIds := memberIds d @ [uid x],
             members := (members d)(uid x \<mapsto> \<lparr>displayName = getDisplayName x, photoURL = userPhotoURL x\<rparr>),
             memberResponses := (memberResponses d)(uid x \<mapsto> joinResponses u)\<rparr>)"
  using assms
  by (auto simp: handleJoinGroup_def getDoc_def updateDoc_def arrayUnion_def Let_def
      split: option.splits sum.splits io.splits if_splits)

text \<open>
  C5. If the signed-in user's id is already in the \<open>memberIds\<close> of the group the trimmed
  code names, \<open>handleJoinGroup\<close> takes the \<open>AlreadyMember\<close> branch and returns the store as
  it was. A join that succeeds appends the user's id, which was not in \<open>memberIds\<close>, once.
  And every operation (create, join, draw, delete), whatever its outcome, takes a store in
  which no group lists a user id twice to a store with the same property.
\<close>

theorem join_member_once:
  "(usr = Some x \<and> trim (joinCode u) \<noteq> [] \<and> readIO e = Succeeds \<and>
    st (trim (joinCode u)) = Some d \<and> uid x \<in> set (memberIds d) \<longrightarrow>
      handleJoinGroup usr e u st =
        (AlreadyMember,
         u\<lparr>joinError := Some ''You are already part of that group.'', joinSuccess := None,
           isJoining := False\<rparr>, st)) \<and>
   (fst (handleJoinGroup usr e u st) = Joined \<longrightarrow>
      (\<exists>y d0 d1. usr = Some y \<and> st (trim (joinCode u)) = Some d0 \<and> uid y \<notin> set (memberIds d0) \<and>
         snd (snd (handleJoinGroup usr e u st)) (trim (joinCode u)) = Some d1 \<and>
         memberIds d1 = memberIds d0 @ [uid y])) \<and>
   (members_once st \<longrightarrow> members_once (snd (snd (perform usr e req u st))))"
proof (intro conjI impI)
  assume a: "usr = Some x \<and> trim (joinCode u) \<noteq> [] \<and> readIO e = Succeeds \<and>
    st (trim (joinCode u)) = Some d \<and> uid x \<in> set (memberIds d)"
  then show "handleJoinGroup usr e u st =
        (AlreadyMember,
         u\<lparr>joinError := Some ''You are already part of that group.'', joinSuccess := None,
           isJoining := False\<rparr>, st)"
    using handleJoinGroup_found [where usr = usr and x = x and u = u and e = e and st = st and d = d]
    by simp
next
  assume "fst (handleJoinGroup usr e u st) = Joined"
  from handleJoinGroup_joined [OF this]
  show "\<exists>y d0 d1. usr = Some y \<and> st (trim (joinCode u)) = Some d0 \<and> uid y \<notin> set (memberIds d0) \<and>
         snd (snd (handleJoinGroup usr e u st)) (trim (joinCode u)) = Some d1 \<and>
         memberIds d1 = memberIds d0 @ [uid y]"
    by fastforce
next
  assume "members_once st"
  then show "members_once (snd (snd (perform usr e req u st)))" by (rule perform_members_once)
qed

theorem join_member_once_witness:
  "handleJoinGroup (Some (sample_user ''ann'' ''Ann'')) (sample_env Succeeds Succeeds [0])
      (initial_ui\<lparr>joinCode := ''Zx3kQ9vLm2TpR7aYc1Bd''\<rparr>)
      [''Zx3kQ9vLm2TpR7aYc1Bd'' \<mapsto> sample_doc ''ann'' [''ann''] [''ann''] None] =
     (AlreadyMember,
      initial_ui\<lparr>joinCode := ''Zx3kQ9vLm2TpR7aYc1Bd''\<rparr>
        \<lparr>joinError := Some ''You are already part of that group.'', joinSuccess := None,
         isJoining := False\<rparr>,
      [''Zx3kQ9vLm2TpR7aYc1Bd'' \<mapsto> sample_doc ''ann'' [''ann''] [''ann''] None]) \<and>
   members_once (snd (snd (perform (Some (sample_user ''ann'' ''Ann'')) (sample_env Succeeds Succeeds [0])
      JoinGroup (initial_ui\<lparr>joinCode := ''Zx3kQ9vLm2TpR7aYc1Bd''\<rparr>)
      [''Zx3kQ9vLm2TpR7aYc1Bd'' \<mapsto> sample_doc ''ann'' [''ann''] [''ann''] None]))) \<and>
   (\<exists>d1. snd (snd (handleJoinGroup (Some (sample_user ''bob'' ''Bob'')) (sample_env Succeeds Succeeds [0])
      (initial_ui\<lparr>joinCode := ''Zx3kQ9vLm2TpR7aYc1Bd''\<rparr>)
      [''Zx3kQ9vLm2TpR7aYc1Bd'' \<mapsto> sample_doc ''ann'' [''ann''] [''ann''] None]))
        ''Zx3kQ9vLm2TpR7aYc1Bd'' = Some d1 \<and> memberIds d1 = [''ann'', ''bob''])"
proof -
  let ?ann = "sample_user ''ann'' ''Ann''"
  let ?bob = "sample_user ''bob'' ''Bob''"
  let ?e = "sample_env Succeeds Succeeds [0]"
  let ?u = "initial_ui\<lparr>joinCode := ''Zx3kQ9vLm2TpR7aYc1Bd''\<rparr>"
  let ?d = "sample_doc ''ann'' [''ann''] [''ann''] None"
  let ?st = "[''Zx3kQ9vLm2TpR7aYc1Bd'' \<mapsto> ?d]"
  have t: "trim ''Zx3kQ9vLm2TpR7aYc1Bd'' = ''Zx3kQ9vLm2TpR7aYc1Bd''"
    by (simp add: trim_def is_ws_def)
  have c: "joinCode ?u = ''Zx3kQ9vLm2TpR7aYc1Bd''" by simp
  have p: "Some ?ann = Some ?ann \<and> trim (joinCode ?u) \<noteq> [] \<and> readIO ?e = Succeeds \<and>
      ?st (trim (joinCode ?u)) = Some ?d \<and> uid ?ann \<in> set (memberIds ?d)"
    by (simp add: t sample_env_def sample_doc_def sample_user_def)
  have inv: "members_once ?st" by (simp add: members_once_def sample_doc_def)
  have j: "fst (handleJoinGroup (Some ?bob) ?e ?u ?st) = Joined"
    by (simp add: handleJoinGroup_def getDoc_def updateDoc_def t sample_env_def sample_doc_def
        sample_user_def Let_def)
  have d0: "?st (trim (joinCode ?u)) = Some d0 \<Longrightarrow> memberIds d0 = [''ann'']" for d0
    by (simp add: t sample_doc_def) auto
  have y: "Some ?bob = Some y \<Longrightarrow> uid y = ''bob''" for y
    by (auto simp: sample_user_def)
  note A = join_member_once [where usr = "Some ?ann" and x = ?ann and u = ?u and e = ?e
      and st = ?st and d = ?d and req = JoinGroup]
  note B = join_member_once [where usr = "Some ?bob" and x = ?bob and u = ?u and e = ?e
      and st = ?st and d = ?d and req = JoinGroup]
  have 1: "handleJoinGroup (Some ?ann) ?e ?u ?st =
     (AlreadyMember,
      ?u\<lparr>joinError := Some ''You are already part of that group.'', joinSuccess := None,
         isJoining := False\<rparr>, ?st)"
    using A p by blast
  have 2: "members_once (snd (snd (perform (Some ?ann) ?e JoinGroup ?u ?st)))"
    using A inv by blast
  from B j obtain y d0 d1 where
    b: "Some ?bob = Some y" "?st (trim (joinCode ?u)) = Some d0"
      "snd (snd (handleJoinGroup (Some ?bob) ?e ?u ?st)) (trim (joinCode ?u)) = Some d1"
      "memberIds d1 = memberIds d0 @ [uid y]"
    by blast
  have 3: "\<exists>d1. snd (snd (handleJoinGroup (Some ?bob) ?e ?u ?st)) ''Zx3kQ9vLm2TpR7aYc1Bd'' = Some d1 \<and>
      memberIds d1 = [''ann'', ''bob'']"
    using b(3,4) d0 [OF b(2)] y [OF b(1)] by (simp add: t c)
  show ?thesis using 1 2 3 by blast
qed

subsection \<open>Creating a group\<close>

lemma getDisplayName_value:
  "getDisplayName x =
     (if userDisplayName x \<noteq> None \<and> userDisplayName x \<noteq> Some [] then the (userDisplayName x)
      else if email x \<noteq> None \<and> email x \<noteq> Some [] then the (email x)
      else if phoneNumber x \<noteq> None \<and> phoneNumber x \<noteq> Some [] then the (phoneNumber x)
      else ''Anonymous gifter'')"
  by (cases "userDisplayName x"; cases "email x"; cases "phoneNumber x")
     (simp_all add: getDisplayName_def)

text \<open>
  What \<open>handleCreateGroup\<close> does for a signed-in user in the other cases. A name that is
  blank after trimming gives the \<open>ValidationError\<close> branch, the error message and the store
  as it was. With a name that is not blank, a write the store does not reject, and at least
  one authored custom field or a store that ignores undefined properties, it stores under
  the id the store hands out a document whose \<open>memberIds\<close> is exactly the creating user,
  whose \<open>members\<close> maps that user to the profile of their display name (the first non-empty
  of display name, email and phone number, else \<open>Anonymous gifter\<close>) and avatar, whose owner
  fields are the creating user's, with \<open>assignments\<close> null, \<open>memberResponses\<close> empty and
  \<open>createdAt\<close> the server time; the result carries that id and selects it.
\<close>

lemma create_group_accepted:
  assumes "usr = Some x"
  shows "(trim (newGroupName u) = [] \<longrightarrow>
      fst (handleCreateGroup usr e u st) = ValidationError \<and>
      createError (fst (snd (handleCreateGroup usr e u st))) = Some ''Give your group a name first.'' \<and>
      snd (snd (handleCreateGroup usr e u st)) = st) \<and>
    (trim (newGroupName u) \<noteq> [] \<and> writeIO e = Succeeds \<and>
       (formCustomFields u \<noteq> [] \<or> ignoreUndefinedProperties e) \<longrightarrow>
      fst (handleCreateGroup usr e u st) = Created (newId e) \<and>
      selectedGroupId (fst (snd (handleCreateGroup usr e u st))) = Some (newId e) \<and>
      (\<exists>d. snd (snd (handleCreateGroup usr e u st)) = st(newId e \<mapsto> d) \<and>
         name d = trim (newGroupName u) \<and>
         memberIds d = [uid x] \<and>
         dom (members d) = {uid x} \<and>
         members d (uid x) =
           Some \<lparr>displayName =
                   (if userDisplayName x \<noteq> None \<and> userDisplayName x \<noteq> Some [] then the (userDisplayName x)
                    else if email x \<noteq> None \<and> email x \<noteq> Some [] then the (email x)
                    else if phoneNumber x \<noteq> None \<and> phoneNumber x \<noteq> Some [] then the (phoneNumber x)
                    else ''Anonymous gifter''),
                 photoURL = userPhotoURL x\<rparr> \<and>
         ownerId d = uid x \<and>
         ownerName d =
           (if userDisplayName x \<noteq> None \<and> userDisplayName x \<noteq> Some [] then the (userDisplayName x)
            else if email x \<noteq> None \<and> email x \<noteq> Some [] then the (email x)
            else if phoneNumber x \<noteq> None \<and> phoneNumber x \<noteq> Some [] then the (phoneNumber x)
            else ''Anonymous gifter'') \<and>
         ownerPhotoURL d = userPhotoURL x \<and>
         assignments d = None \<and> memberResponses d = Map.empty \<and>
         customFields d = (if formCustomFields u = [] then None else Some (formCustomFields u)) \<and>
         createdAt d = Some (serverTime e) \<and> drawRunAt d = None))"
proof (intro conjI impI)
  assume "trim (newGroupName u) = []"
  then show "fst (handleCreateGroup usr e u st) = ValidationError"
    and "createError (fst (snd (handleCreateGroup usr e u st))) = Some ''Give your group a name first.''"
    and "snd (snd (handleCreateGroup usr e u st)) = st"
    using assms by (simp_all add: handleCreateGroup_def Let_def)
next
  assume ok: "trim (newGroupName u) \<noteq> [] \<and> writeIO e = Succeeds \<and>
       (formCustomFields u \<noteq> [] \<or> ignoreUndefinedProperties e)"
  let ?n = "if userDisplayName x \<noteq> None \<and> userDisplayName x \<noteq> Some [] then the (userDisplayName x)
            else if email x \<noteq> None \<and> email x \<noteq> Some [] then the (email x)
            else if phoneNumber x \<noteq> None \<and> phoneNumber x \<noteq> Some [] then the (phoneNumber x)
            else ''Anonymous gifter''"
  have n: "getDisplayName x = ?n" by (rule getDisplayName_value)
  let ?d = "\<lparr>name = trim (newGroupName u),
      description = Some (first_truthy [Some (trim (newGroupDescription u))] []),
      ownerId = uid x, ownerName = getDisplayName x, ownerPhotoURL = userPhotoURL x,
      memberIds = [uid x],
      members = [uid x \<mapsto> \<lparr>displayName = getDisplayName x, photoURL = userPhotoURL x\<rparr>],
      assignments = None,
      customFields = (if length (formCustomFields u) > 0 then Some (formCustomFields u) else None),
      memberResponses = Map.empty, createdAt = Some (serverTime e), drawRunAt = None\<rparr>"
  have run: "handleCreateGroup usr e u st =
    (Created (newId e),
     u\<lparr>createError := None, createSuccess := None, isCreatingGroup := True\<rparr>
      \<lparr>newGroupName := [], newGroupDescription := [], formCustomFields := [],
       createSuccess := Some ''Group created! Share the join code with your Santas.'',
       selectedGroupId := Some (newId e), isCreatingGroup := False\<rparr>,
     st(newId e \<mapsto> ?d))"
    using assms ok by (auto simp: handleCreateGroup_def addDoc_def Let_def)
  show "fst (handleCreateGroup usr e u st) = Created (newId e)" by (simp add: run)
  show "selectedGroupId (fst (snd (handleCreateGroup usr e u st))) = Some (newId e)"
    by (simp add: run)
  have fields: "snd (snd (handleCreateGroup usr e u st)) = st(newId e \<mapsto> ?d)"
    "name ?d = trim (newGroupName u)" "memberIds ?d = [uid x]" "dom (members ?d) = {uid x}"
    "members ?d (uid x) = Some \<lparr>displayName = ?n, photoURL = userPhotoURL x\<rparr>"
    "ownerId ?d = uid x" "ownerName ?d = ?n" "ownerPhotoURL ?d = userPhotoURL x"
    "assignments ?d = None" "memberResponses ?d = Map.empty"
    "customFields ?d = (if formCustomFields u = [] then None else Some (formCustomFields u))"
    "createdAt ?d = Some (serverTime e)" "drawRunAt ?d = None"
    using n by (simp_all add: run)
  show "\<exists>d. snd (snd (handleCreateGroup usr e u st)) = st(newId e \<mapsto> d) \<and>
         name d = trim (newGroupName u) \<and>
         memberIds d = [uid x] \<and>
         dom (members d) = {uid x} \<and>
         members d (uid x) = Some \<lparr>displayName = ?n, photoURL = userPhotoURL x\<rparr> \<and>
         ownerId d = uid x \<and>
         ownerName d = ?n \<and>
         ownerPhotoURL d = userPhotoURL x \<and>
         assignments d = None \<and> memberResponses d = Map.empty \<and>
         customFields d = (if formCustomFields u = [] then None else Some (formCustomFields u)) \<and>
         createdAt d = Some (serverTime e) \<and> drawRunAt d = None"
    using fields by (intro exI [of _ ?d] conjI)
qed

text \<open>
  The two cases on concrete requests, under the SDK's default setting: a name of two
  spaces is refused and nothing is stored; \<open>Office Party\<close> with one authored field is
  stored with Ann as sole member and owner, under her display name.
\<close>

lemma create_group_accepted_example:
  "fst (handleCreateGroup (Some (sample_user ''ann'' ''Ann'')) (sample_env Succeeds Succeeds [0])
          (initial_ui\<lparr>newGroupName := ''  ''\<rparr>) Map.empty) = ValidationError \<and>
   snd (snd (handleCreateGroup (Some (sample_user ''ann'' ''Ann'')) (sample_env Succeeds Succeeds [0])
          (initial_ui\<lparr>newGroupName := ''  ''\<rparr>) Map.empty)) = Map.empty \<and>
   fst (handleCreateGroup (Some (sample_user ''ann'' ''Ann'')) (sample_env Succeeds Succeeds [0])
          (initial_ui\<lparr>newGroupName := ''Office Party'',
             formCustomFields := [\<lparr>fid = ''f1'', label = ''Wish list'', placeholder = Some []\<rparr>]\<rparr>)
          Map.empty)
     = Created ''Zx3kQ9vLm2TpR7aYc1Bd'' \<and>
   (\<exists>d. snd (snd (handleCreateGroup (Some (sample_user ''ann'' ''Ann'')) (sample_env Succeeds Succeeds [0])
          (initial_ui\<lparr>newGroupName := ''Office Party'',
             formCustomFields := [\<lparr>fid = ''f1'', label = ''Wish list'', placeholder = Some []\<rparr>]\<rparr>)
          Map.empty))
        = [''Zx3kQ9vLm2TpR7aYc1Bd'' \<mapsto> d] \<and>
      name d = ''Office Party'' \<and> memberIds d = [''ann''] \<and>
      members d ''ann'' = Some \<lparr>displayName = ''Ann'', photoURL = None\<rparr> \<and>
      ownerId d = ''ann'' \<and> ownerName d = ''Ann'' \<and>
      assignments d = None \<and> memberResponses d = Map.empty)"
proof -
  let ?ann = "sample_user ''ann'' ''Ann''"
  let ?e = "sample_env Succeeds Succeeds [0]"
  let ?u0 = "initial_ui\<lparr>newGroupName := ''  ''\<rparr>"
  let ?u1 = "initial_ui\<lparr>newGroupName := ''Office Party'',
             formCustomFields := [\<lparr>fid = ''f1'', label = ''Wish list'', placeholder = Some []\<rparr>]\<rparr>"
  have t0: "trim (newGroupName ?u0) = []" by (simp add: trim_def is_ws_def)
  have t1: "trim (newGroupName ?u1) = ''Office Party''" by (simp add: trim_def is_ws_def)
  have w: "writeIO ?e = Succeeds" "newId ?e = ''Zx3kQ9vLm2TpR7aYc1Bd''" "uid ?ann = ''ann''"
    "userPhotoURL ?ann = None"
    by (simp_all add: sample_env_def sample_user_def)
  have nm: "(if userDisplayName ?ann \<noteq> None \<and> userDisplayName ?ann \<noteq> Some [] then the (userDisplayName ?ann)
            else if email ?ann \<noteq> None \<and> email ?ann \<noteq> Some [] then the (email ?ann)
            else if phoneNumber ?ann \<noteq> None \<and> phoneNumber ?ann \<noteq> Some [] then the (phoneNumber ?ann)
            else ''Anonymous gifter'') = ''Ann''"
    by (simp add: sample_user_def)
  note A = create_group_accepted [where usr = "Some ?ann" and x = ?ann and e = ?e and u = ?u0
      and st = Map.empty, OF refl]
  note B = create_group_accepted [where usr = "Some ?ann" and x = ?ann and e = ?e and u = ?u1
      and st = Map.empty, OF refl]
  have 1: "fst (handleCreateGroup (Some ?ann) ?e ?u0 Map.empty) = ValidationError"
    and 2: "snd (snd (handleCreateGroup (Some ?ann) ?e ?u0 Map.empty)) = Map.empty"
    using A t0 by blast+
  have ok: "trim (newGroupName ?u1) \<noteq> [] \<and> writeIO ?e = Succeeds \<and>
      (formCustomFields ?u1 \<noteq> [] \<or> ignoreUndefinedProperties ?e)"
    using t1 w by simp
  have 3: "fst (handleCreateGroup (Some ?ann) ?e ?u1 Map.empty) = Created ''Zx3kQ9vLm2TpR7aYc1Bd''"
    using B ok w(2) by simp
  from B ok obtain d where
    d: "snd (snd (handleCreateGroup (Some ?ann) ?e ?u1 Map.empty)) = Map.empty(newId ?e \<mapsto> d)"
      "name d = trim (newGroupName ?u1)" "memberIds d = [uid ?ann]"
      "members d (uid ?ann) =
           Some \<lparr>displayName =
                   (if userDisplayName ?ann \<noteq> None \<and> userDisplayName ?ann \<noteq> Some [] then the (userDisplayName ?ann)
                    else if email ?ann \<noteq> None \<and> email ?ann \<noteq> Some [] then the (email ?ann)
                    else if phoneNumber ?ann \<noteq> None \<and> phoneNumber ?ann \<noteq> Some [] then the (phoneNumber ?ann)
                    else ''Anonymous gifter''),
                 photoURL = userPhotoURL ?ann\<rparr>"
      "ownerId d = uid ?ann"
      "ownerName d =
           (if userDisplayName ?ann \<noteq> None \<and> userDisplayName ?ann \<noteq> Some [] then the (userDisplayName ?ann)
            else if email ?ann \<noteq> None \<and> email ?ann \<noteq> Some [] then the (email ?ann)
            else if phoneNumber ?ann \<noteq> None \<and> phoneNumber ?ann \<noteq> Some [] then the (phoneNumber ?ann)
            else ''Anonymous gifter'')"
      "assignments d = None" "memberResponses d = Map.empty"
    by blast
  have 4: "\<exists>d. snd (snd (handleCreateGroup (Some ?ann) ?e ?u1 Map.empty))
        = [''Zx3kQ9vLm2TpR7aYc1Bd'' \<mapsto> d] \<and>
      name d = ''Office Party'' \<and> memberIds d = [''ann''] \<and>
      members d ''ann'' = Some \<lparr>displayName = ''Ann'', photoURL = None\<rparr> \<and>
      ownerId d = ''ann'' \<and> ownerName d = ''Ann'' \<and>
      assignments d = None \<and> memberResponses d = Map.empty"
    using d by (simp only: t1 w nm) blast
  show ?thesis using 1 2 3 4 by blast
qed

text \<open>
  C6. The claim promises that every create request with a name that is not blank persists
  a new group. The form marks custom fields as optional, and \<open>handleCreateGroup\<close> then
  hands \<open>addDoc\<close> the value \<open>undefined\<close> for \<open>customFields\<close> (where an empty description is
  written as the empty string and a missing avatar as null). Under the SDK's default setting
  \<open>addDoc\<close> throws on that value: for every signed-in user, every name that is not blank
  and no authored custom field, the handler ends in its \<open>catch\<close> block, sets the error
  message and leaves the store as it was, whatever the network would have answered.
\<close>

theorem create_without_custom_fields_not_persisted:
  assumes "usr = Some x" and "trim (newGroupName u) \<noteq> []"
    and "formCustomFields u = []" and "\<not> ignoreUndefinedProperties e"
  shows "handleCreateGroup usr e u st =
    (StoreUnavailable,
     u\<lparr>createError := Some ''Unable to create that group. Please try again.'',
       createSuccess := None, isCreatingGroup := False\<rparr>,
     st)"
  using assms by (simp add: handleCreateGroup_def addDoc_def Let_def)

theorem create_without_custom_fields_not_persisted_witness:
  "handleCreateGroup (Some (sample_user ''ann'' ''Ann'')) (sample_env Succeeds Succeeds [0])
      (initial_ui\<lparr>newGroupName := ''Office Party''\<rparr>) Map.empty =
    (StoreUnavailable,
     initial_ui\<lparr>newGroupName := ''Office Party''\<rparr>
       \<lparr>createError := Some ''Unable to create that group. Please try again.'',
        createSuccess := None, isCreatingGroup := False\<rparr>,
     Map.empty)"
proof -
  have t: "trim ''Office Party'' = ''Office Party''" by (simp add: trim_def is_ws_def)
  have p: "trim (newGroupName (initial_ui\<lparr>newGroupName := ''Office Party''\<rparr>)) \<noteq> []"
    "formCustomFields (initial_ui\<lparr>newGroupName := ''Office Party''\<rparr>) = []"
    "\<not> ignoreUndefinedProperties (sample_env Succeeds Succeeds [0])"
    using t by (simp_all add: initial_ui_def sample_env_def)
  show ?thesis
    by (rule create_without_custom_fields_not_persisted [OF refl p])
qed

subsection \<open>The selected group\<close>

text \<open>
  C7. For every \<open>groups\<close> sequence and every \<open>selectedGroupId\<close>: if the id is null or not
  the id of a group in the sequence, the effect sets the id of the first group, or null
  when the sequence is empty. In every case the resulting selection is null or the id of a
  group of the current sequence. The effect is a total function with no failure branch.
\<close>

theorem selection_resolves:
  "((selectedGroupId u = None \<or> (\<exists>s. selectedGroupId u = Some s \<and> s \<notin> gid ` set (groups u))) \<longrightarrow>
      selectedGroupId (selection_effect u) = (case groups u of [] \<Rightarrow> None | g # _ \<Rightarrow> Some (gid g))) \<and>
   (selectedGroupId (selection_effect u) = None \<or>
      (\<exists>g \<in> set (groups u). selectedGroupId (selection_effect u) = Some (gid g))) \<and>
   (groups u = [] \<longrightarrow> selectedGroupId (selection_effect u) = None)"
  by (auto simp: selection_effect_def list_ex_iff split: option.splits list.splits)

theorem selection_resolves_witness:
  "selectedGroupId (selection_effect
      (initial_ui\<lparr>groups := [toGroup ''g2'' (sample_doc ''bob'' [''bob'', ''ann''] [''bob'', ''ann''] None),
                             toGroup ''g1'' (sample_doc ''ann'' [''ann''] [''ann''] None)],
                  selectedGroupId := Some ''g0''\<rparr>)) = Some ''g2'' \<and>
   selectedGroupId (selection_effect (initial_ui\<lparr>selectedGroupId := Some ''g0''\<rparr>)) = None"
proof -
  let ?u = "initial_ui\<lparr>groups := [toGroup ''g2'' (sample_doc ''bob'' [''bob'', ''ann''] [''bob'', ''ann''] None),
                             toGroup ''g1'' (sample_doc ''ann'' [''ann''] [''ann''] None)],
                  selectedGroupId := Some ''g0''\<rparr>"
  let ?v = "initial_ui\<lparr>selectedGroupId := Some ''g0''\<rparr>"
  have p: "selectedGroupId ?u = None \<or> (\<exists>s. selectedGroupId ?u = Some s \<and> s \<notin> gid ` set (groups ?u))"
    by (simp add: toGroup_def)
  have q: "groups ?v = []" by (simp add: initial_ui_def)
  have "selectedGroupId (selection_effect ?u) = (case groups ?u of [] \<Rightarrow> None | g # _ \<Rightarrow> Some (gid g))"
    using selection_resolves [of ?u] p by blast
  then have 1: "selectedGroupId (selection_effect ?u) = Some ''g2''" by (simp add: toGroup_def)
  have 2: "selectedGroupId (selection_effect ?v) = None"
    using selection_resolves [of ?v] q by blast
  show ?thesis using 1 2 by blast
qed

subsection \<open>The join form's schema\<close>

text \<open>
  C8. \<open>loadGroupFields\<close> asks the store for no document while the trimmed code is shorter
  than 20 characters, and then sets the empty schema. From 20 characters on it asks for
  exactly the document named by the trimmed code and sets that document's \<open>customFields\<close>;
  it sets the empty schema when the document does not exist, when it has no
  \<open>customFields\<close>, and when the lookup throws. It has no failure branch.
\<close>

theorem loadGroupFields_schema:
  "(length (trim (joinCode u)) < 20 \<longrightarrow>
      loadGroupFields e u st = ([], u\<lparr>joinGroupFields := [], joinResponses := Map.empty\<rparr>)) \<and>
   (20 \<le> length (trim (joinCode u)) \<longrightarrow>
      fst (loadGroupFields e u st) = [trim (joinCode u)] \<and>
      joinGroupFields (snd (loadGroupFields e u st)) =
        (case readIO e of
           Throws \<Rightarrow> []
         | Succeeds \<Rightarrow>
             (case st (trim (joinCode u)) of
                None \<Rightarrow> []
              | Some d \<Rightarrow> (case customFields d of None \<Rightarrow> [] | Some fs \<Rightarrow> fs))))"
  by (auto simp: loadGroupFields_def getDoc_def Let_def split: io.splits option.splits)

theorem loadGroupFields_schema_witness:
  "loadGroupFields (sample_env Succeeds Succeeds [0]) (initial_ui\<lparr>joinCode := '' Zx3kQ9 ''\<rparr>)
      [''Zx3kQ9vLm2TpR7aYc1Bd'' \<mapsto> sample_doc ''ann'' [''ann''] [''ann'']
         (Some [\<lparr>fid = ''f1'', label = ''Wish list'', placeholder = None\<rparr>])] =
     ([], initial_ui\<lparr>joinCode := '' Zx3kQ9 ''\<rparr>\<lparr>joinGroupFields := [], joinResponses := Map.empty\<rparr>) \<and>
   fst (loadGroupFields (sample_env Succeeds Succeeds [0])
      (initial_ui\<lparr>joinCode := '' Zx3kQ9vLm2TpR7aYc1Bd''\<rparr>)
      [''Zx3kQ9vLm2TpR7aYc1Bd'' \<mapsto> sample_doc ''ann'' [''ann''] [''ann'']
         (Some [\<lparr>fid = ''f1'', label = ''Wish list'', placeholder = None\<rparr>])]) = [''Zx3kQ9vLm2TpR7aYc1Bd''] \<and>
   joinGroupFields (snd (loadGroupFields (sample_env Succeeds Succeeds [0])
      (initial_ui\<lparr>joinCode := '' Zx3kQ9vLm2TpR7aYc1Bd''\<rparr>)
      [''Zx3kQ9vLm2TpR7aYc1Bd'' \<mapsto> sample_doc ''ann'' [''ann''] [''ann'']
         (Some [\<lparr>fid = ''f1'', label = ''Wish list'', placeholder = None\<rparr>])])) =
     [\<lparr>fid = ''f1'', label = ''Wish list'', placeholder = None\<rparr>] \<and>
   joinGroupFields (snd (loadGroupFields (sample_env Throws Succeeds [0])
      (initial_ui\<lparr>joinCode := '' Zx3kQ9vLm2TpR7aYc1Bd''\<rparr>)
      [''Zx3kQ9vLm2TpR7aYc1Bd'' \<mapsto> sample_doc ''ann'' [''ann''] [''ann'']
         (Some [\<lparr>fid = ''f1'', label = ''Wish list'', placeholder = None\<rparr>])])) = []"
proof -
  let ?e = "sample_env Succeeds Succeeds [0]"
  let ?e' = "sample_env Throws Succeeds [0]"
  let ?u0 = "initial_ui\<lparr>joinCode := '' Zx3kQ9 ''\<rparr>"
  let ?u1 = "initial_ui\<lparr>joinCode := '' Zx3kQ9vLm2TpR7aYc1Bd''\<rparr>"
  let ?fs = "[\<lparr>fid = ''f1'', label = ''Wish list'', placeholder = None\<rparr>]"
  let ?st = "[''Zx3kQ9vLm2TpR7aYc1Bd'' \<mapsto> sample_doc ''ann'' [''ann''] [''ann''] (Some ?fs)]"
  have t0: "trim (joinCode ?u0) = ''Zx3kQ9''" by (simp add: trim_def is_ws_def)
  have t1: "trim (joinCode ?u1) = ''Zx3kQ9vLm2TpR7aYc1Bd''" by (simp add: trim_def is_ws_def)
  have short: "length (trim (joinCode ?u0)) < 20" by (simp only: t0) simp
  have long: "20 \<le> length (trim (joinCode ?u1))" by (simp only: t1) simp
  have 1: "loadGroupFields ?e ?u0 ?st = ([], ?u0\<lparr>joinGroupFields := [], joinResponses := Map.empty\<rparr>)"
    using loadGroupFields_schema [of ?u0 ?e ?st] short by blast
  have 2: "fst (loadGroupFields ?e ?u1 ?st) = [''Zx3kQ9vLm2TpR7aYc1Bd'']"
    using loadGroupFields_schema [of ?u1 ?e ?st] long by (simp only: t1)
  have "joinGroupFields (snd (loadGroupFields ?e ?u1 ?st)) =
      (case readIO ?e of Throws \<Rightarrow> []
       | Succeeds \<Rightarrow> (case ?st (trim (joinCode ?u1)) of None \<Rightarrow> []
           | Some d \<Rightarrow> (case customFields d of None \<Rightarrow> [] | Some fs \<Rightarrow> fs)))"
    using loadGroupFields_schema [of ?u1 ?e ?st] long by blast
  then have 3: "joinGroupFields (snd (loadGroupFields ?e ?u1 ?st)) = ?fs"
    by (simp only: t1) (simp add: sample_env_def sample_doc_def)
  have "joinGroupFields (snd (loadGroupFields ?e' ?u1 ?st)) =
      (case readIO ?e' of Throws \<Rightarrow> []
       | Succeeds \<Rightarrow> (case ?st (trim (joinCode ?u1)) of None \<Rightarrow> []
           | Some d \<Rightarrow> (case customFields d of None \<Rightarrow> [] | Some fs \<Rightarrow> fs)))"
    using loadGroupFields_schema [of ?u1 ?e' ?st] long by blast
  then have 4: "joinGroupFields (snd (loadGroupFields ?e' ?u1 ?st)) = []"
    by (simp add: sample_env_def)
  show ?thesis using 1 2 3 4 by blast
qed

end
